theory Spec2Isabelle
  imports Complex_Main "HOL-Library.Log_Nat"
begin

section \<open>JavaScript values used by the parser and the matcher\<close>

text \<open>
  A property of a candidate object may be missing (\<open>undefined\<close>), \<open>null\<close> or a string.
  Strings are lists of code units below 256, which covers the vocabularies, keywords and
  regular expressions of both services.
\<close>

datatype jsfield = Undefined | Null | Str string

datatype error = TypeError

text \<open>How a template literal \<^verbatim>\<open>`${v}`\<close> renders a property.\<close>

fun tmpl :: "jsfield \<Rightarrow> string" where
  "tmpl Undefined = ''undefined''"
| "tmpl Null = ''null''"
| "tmpl (Str s) = s"

text \<open>Truthiness of a property: only a non-empty string is truthy.\<close>

fun truthy :: "jsfield \<Rightarrow> bool" where
  "truthy (Str s) = (s \<noteq> [])"
| "truthy _ = False"

text \<open>\<^verbatim>\<open>v || ''\<close> for a property \<open>v\<close>.\<close>

fun orEmptyString :: "jsfield \<Rightarrow> string" where
  "orEmptyString (Str s) = s"
| "orEmptyString _ = []"

text \<open>\<^verbatim>\<open>xs || []\<close> for an array property that may be absent.\<close>

fun orEmptyList :: "'a list option \<Rightarrow> 'a list" where
  "orEmptyList None = []"
| "orEmptyList (Some xs) = xs"

subsection \<open>Characters and strings\<close>

definition code :: "char \<Rightarrow> nat" where
  "code c = of_char c"

definition isDigit :: "char \<Rightarrow> bool" where
  "isDigit c = (48 \<le> code c \<and> code c \<le> 57)"

text \<open>The class \<^verbatim>\<open>\w\<close>, which decides the word boundary \<^verbatim>\<open>\b\<close>.\<close>

definition isWordChar :: "char \<Rightarrow> bool" where
  "isWordChar c = ((48 \<le> code c \<and> code c \<le> 57) \<or> (65 \<le> code c \<and> code c \<le> 90)
     \<or> (97 \<le> code c \<and> code c \<le> 122) \<or> code c = 95)"

text \<open>White space as \<^verbatim>\<open>trim\<close> and \<^verbatim>\<open>\s\<close> see it, below 256.\<close>

definition isSpace :: "char \<Rightarrow> bool" where
  "isSpace c = (code c = 9 \<or> code c = 10 \<or> code c = 11 \<or> code c = 12 \<or> code c = 13
     \<or> code c = 32 \<or> code c = 160)"

text \<open>\<^verbatim>\<open>[-.\s]\<close>\<close>

definition isSep :: "char \<Rightarrow> bool" where
  "isSep c = (code c = 45 \<or> code c = 46 \<or> isSpace c)"

text \<open>
  \<^verbatim>\<open>toLowerCase\<close> moves A-Z and the Latin-1 capitals (without the multiplication sign) up
  by 32. Bit 5 of the code, of value 32, is clear in both ranges, so adding 32 sets it.
\<close>

definition withBit5 :: "bool \<Rightarrow> char \<Rightarrow> char" where
  "withBit5 v c = (case c of Char b0 b1 b2 b3 b4 b5 b6 b7 \<Rightarrow> Char b0 b1 b2 b3 b4 v b6 b7)"

definition lowerChar :: "char \<Rightarrow> char" where
  "lowerChar c = (if (65 \<le> code c \<and> code c \<le> 90) \<or> (192 \<le> code c \<and> code c \<le> 222 \<and> code c \<noteq> 215)
     then withBit5 True c else c)"

definition toLowerCase :: "string \<Rightarrow> string" where
  "toLowerCase s = map lowerChar s"

text \<open>
  Canonicalisation of a character under the \<^verbatim>\<open>i\<close> flag of a regular expression: the
  upper-case form when that is a single code unit of the same range (so the micro sign,
  the sharp s and y with diaeresis stay as they are). The upper-case form is 32 below:
  bit 5 is set in both ranges, and subtracting 32 clears it.
\<close>

definition canonChar :: "char \<Rightarrow> char" where
  "canonChar c = (if (97 \<le> code c \<and> code c \<le> 122) \<or> (224 \<le> code c \<and> code c \<le> 254 \<and> code c \<noteq> 247)
     then withBit5 False c else c)"

fun startsWith :: "string \<Rightarrow> string \<Rightarrow> bool" where
  "startsWith s [] = True"
| "startsWith [] (p # ps) = False"
| "startsWith (c # cs) (p # ps) = (c = p \<and> startsWith cs ps)"

text \<open>\<^verbatim>\<open>s.includes(t)\<close>\<close>

fun str_includes :: "string \<Rightarrow> string \<Rightarrow> bool" where
  "str_includes [] t = (t = [])"
| "str_includes (c # cs) t = (startsWith (c # cs) t \<or> str_includes cs t)"

text \<open>\<^verbatim>\<open>/lit/i.test(s)\<close> for a literal pattern.\<close>

definition testLiteralCI :: "string \<Rightarrow> string \<Rightarrow> bool" where
  "testLiteralCI lit s = str_includes (map canonChar s) (map canonChar lit)"

text \<open>\<^verbatim>\<open>s.trim()\<close>\<close>

definition trim :: "string \<Rightarrow> string" where
  "trim s = rev (dropWhile isSpace (rev (dropWhile isSpace s)))"

text \<open>\<^verbatim>\<open>s.split('\n')\<close>: always at least one piece.\<close>

fun split_lines :: "string \<Rightarrow> string list" where
  "split_lines [] = [[]]"
| "split_lines (c # cs) =
     (if code c = 10 then [] # split_lines cs
      else (case split_lines cs of [] \<Rightarrow> [[c]] | l # ls \<Rightarrow> (c # l) # ls))"

text \<open>\<^verbatim>\<open>xs.join(' ')\<close>\<close>

fun join_space :: "string list \<Rightarrow> string" where
  "join_space [] = []"
| "join_space [x] = x"
| "join_space (x # y # ys) = x @ '' '' @ join_space (y # ys)"

text \<open>The decimal numeral of a number, as a template literal prints a length.\<close>

fun showNat :: "nat \<Rightarrow> string" where
  "showNat n = (if n < 10 then [char_of (48 + n)] else showNat (n div 10) @ [char_of (48 + n mod 10)])"

text \<open>
  \<^verbatim>\<open>parseInt\<close> on a string that starts with decimal digits (no blanks, sign or radix
  prefix, as the year tokens are): the value of the longest digit prefix; \<open>None\<close> stands
  for \<open>NaN\<close>.
\<close>

definition digitVal :: "char \<Rightarrow> int" where
  "digitVal c = int (code c) - 48"

definition parseInt :: "string \<Rightarrow> int option" where
  "parseInt s = (case takeWhile isDigit s of [] \<Rightarrow> None
     | ds \<Rightarrow> Some (foldl (\<lambda>acc d. 10 * acc + digitVal d) 0 ds))"

section \<open>Numbers: IEEE 754 binary64 arithmetic\<close>

text \<open>
  A finite double is represented by the rational it denotes. Every arithmetic operation
  computes the exact result and rounds it to the nearest double, ties to the even
  significand (53 bits). The scores stay between 0 and 2 and the quotients of lengths are
  0 or at least \<open>2\<^sup>-\<^sup>3\<^sup>2\<close>, so neither overflow nor the subnormal range is reached.
\<close>

definition pow2 :: "int \<Rightarrow> rat" where
  "pow2 e = (if 0 \<le> e then 2 ^ nat e else 1 / 2 ^ nat (- e))"

text \<open>The binary exponent \<open>\<lfloor>log\<^sub>2 x\<rfloor>\<close> of a positive rational.\<close>

definition ilog2 :: "rat \<Rightarrow> int" where
  "ilog2 x = (case quotient_of x of (p, q) \<Rightarrow>
     let d = bitlen p - bitlen q in if pow2 d \<le> x then d else d - 1)"

definition roundHalfEven :: "rat \<Rightarrow> int" where
  "roundHalfEven q = (let f = \<lfloor>q\<rfloor>; r = q - of_int f in
     if r < 1 / 2 then f else if 1 / 2 < r then f + 1 else if even f then f else f + 1)"

definition rd :: "rat \<Rightarrow> rat" where
  "rd x = (if x = 0 then 0 else
     let a = \<bar>x\<bar>; u = pow2 (ilog2 a - 52); m = of_int (roundHalfEven (a / u)) * u
     in if x < 0 then - m else m)"

definition fadd :: "rat \<Rightarrow> rat \<Rightarrow> rat" where
  "fadd a b = rd (a + b)"

definition fmul :: "rat \<Rightarrow> rat \<Rightarrow> rat" where
  "fmul a b = rd (a * b)"

definition fdiv :: "rat \<Rightarrow> rat \<Rightarrow> rat" where
  "fdiv a b = rd (a / b)"

text \<open>\<^verbatim>\<open>Math.min\<close> on two numbers.\<close>

definition fmin :: "rat \<Rightarrow> rat \<Rightarrow> rat" where
  "fmin a b = min a b"

text \<open>
  A decimal literal of the source denotes the nearest double: \<open>tenths 4\<close> is the value of
  \<^verbatim>\<open>0.4\<close>.
\<close>

definition tenths :: "int \<Rightarrow> rat" where
  "tenths k = rd (of_int k / 10)"

text \<open>
  \<^verbatim>\<open>x.toFixed(2)\<close>: the decimal with two fraction digits nearest to the exact value of
  \<open>x\<close>, the larger one on a tie (the sign is handled apart). The result is the value the
  string denotes; \<^verbatim>\<open>parseFloat\<close> then reads it back as the nearest double.
\<close>

definition toFixed2 :: "rat \<Rightarrow> rat" where
  "toFixed2 x = (if x < 0 then - (of_int \<lfloor>100 * (- x) + 1 / 2\<rfloor> / 100)
     else of_int \<lfloor>100 * x + 1 / 2\<rfloor> / 100)"

definition parseFloat :: "rat \<Rightarrow> rat" where
  "parseFloat q = rd q"

text \<open>A step \<^verbatim>\<open>if (cond) score += w\<close> adds a credit or leaves the score alone.\<close>

fun addCredit :: "rat \<Rightarrow> rat option \<Rightarrow> rat" where
  "addCredit score None = score"
| "addCredit score (Some w) = fadd score w"

text \<open>What a step contributes to the score: nothing when it is skipped.\<close>

fun creditValue :: "rat option \<Rightarrow> rat" where
  "creditValue None = 0"
| "creditValue (Some w) = w"

section \<open>The CV parser (\<^verbatim>\<open>src/services/parser.js\<close>)\<close>

definition TECHNICAL_SKILLS :: "string list" where
  "TECHNICAL_SKILLS =
    [''javascript'', ''python'', ''java'', ''c++'', ''react'', ''vue'', ''angular'', ''node.js'',
     ''typescript'', ''go'', ''rust'', ''sql'', ''postgresql'', ''mongodb'', ''redis'',
     ''docker'', ''kubernetes'', ''aws'', ''azure'', ''gcp'', ''git'', ''ci/cd'',
     ''machine learning'', ''ai'', ''data science'', ''tensorflow'', ''pytorch'']"

definition SOFT_SKILLS :: "string list" where
  "SOFT_SKILLS =
    [''leadership'', ''communication'', ''teamwork'', ''problem-solving'',
     ''critical thinking'', ''time management'', ''collaboration'', ''adaptability'',
     ''creativity'', ''emotional intelligence'', ''negotiation'', ''public speaking'']"

datatype skill_category = TECHNICAL | SOFT

text \<open>
  A skill entry of a profile. The parser always stores a string as its name; a profile
  handed to the matcher is read from storage, and there the name may be missing.
\<close>

record skill =
  skill_name :: jsfield
  category :: skill_category

subsection \<open>extractSkills\<close>

definition extractSkills :: "string \<Rightarrow> skill list" where
  "extractSkills text =
    (let textLower = toLowerCase text in
       map (\<lambda>s. \<lparr>skill_name = Str s, category = TECHNICAL\<rparr>)
         (filter (\<lambda>s. str_includes textLower (toLowerCase s)) TECHNICAL_SKILLS)
       @ map (\<lambda>s. \<lparr>skill_name = Str s, category = SOFT\<rparr>)
         (filter (\<lambda>s. str_includes textLower (toLowerCase s)) SOFT_SKILLS))"

subsection \<open>Year tokens: \<^verbatim>\<open>/\b(19|20)\d{2}\b/g\<close>\<close>

text \<open>
  \<open>yearAt s\<close>: the pattern \<^verbatim>\<open>(19|20)\d{2}\b\<close> matches at the head of \<open>s\<close>. The leading
  \<^verbatim>\<open>\b\<close> depends on the character before, which the scan carries along.
\<close>

definition yearAt :: "string \<Rightarrow> bool" where
  "yearAt s = (case s of
      a # b # c # d # rest \<Rightarrow>
        ((a = CHR ''1'' \<and> b = CHR ''9'') \<or> (a = CHR ''2'' \<and> b = CHR ''0''))
        \<and> isDigit c \<and> isDigit d
        \<and> (case rest of [] \<Rightarrow> True | r # _ \<Rightarrow> \<not> isWordChar r)
    | _ \<Rightarrow> False)"

text \<open>
  The global match, left to right: after a match the search resumes behind it
  (\<open>skip\<close> counts the characters of the match still to pass).
\<close>

fun matchYears :: "nat \<Rightarrow> bool \<Rightarrow> string \<Rightarrow> string list" where
  "matchYears skip prevWord [] = []"
| "matchYears skip prevWord (c # cs) =
    (if 0 < skip then matchYears (skip - 1) (isWordChar c) cs
     else if \<not> prevWord \<and> yearAt (c # cs) then take 4 (c # cs) # matchYears 3 (isWordChar c) cs
     else matchYears 0 (isWordChar c) cs)"

definition yearTokens :: "string \<Rightarrow> string list" where
  "yearTokens line = matchYears 0 False line"

subsection \<open>extractExperience and calculateMonths\<close>

definition calculateMonths :: "string \<Rightarrow> string \<Rightarrow> int option" where
  "calculateMonths startYear endYear =
    (case (parseInt startYear, parseInt endYear) of
       (Some start, Some endv) \<Rightarrow> Some ((endv - start) * 12)
     | _ \<Rightarrow> None)"

text \<open>\<^verbatim>\<open>line.split(/\d{4}/)[0]\<close>: the part of the line before the first run of four digits.\<close>

definition fourDigits :: "string \<Rightarrow> bool" where
  "fourDigits s = (4 \<le> length s \<and> list_all isDigit (take 4 s))"

fun beforeFourDigits :: "string \<Rightarrow> string" where
  "beforeFourDigits [] = []"
| "beforeFourDigits (c # cs) = (if fourDigits (c # cs) then [] else c # beforeFourDigits cs)"

record experience =
  job_title :: string
  exp_company :: string
  exp_location :: jsfield
  start_date :: string
  end_date :: string
  duration_months :: "int option"
  exp_description :: string

definition experienceEntry :: "string \<Rightarrow> string list \<Rightarrow> string list \<Rightarrow> experience" where
  "experienceEntry line years rest =
    \<lparr> job_title = (let t = trim (beforeFourDigits line) in if t = [] then ''Position'' else t),
      exp_company = ''Company'',
      exp_location = Null,
      start_date = hd years,
      end_date = last years,
      duration_months = calculateMonths (hd years) (last years),
      exp_description = (case rest of [] \<Rightarrow> [] | nxt # _ \<Rightarrow> trim nxt) \<rparr>"

text \<open>The loop over the lines; \<open>rest\<close> holds the lines after the current one.\<close>

fun experienceEntries :: "string list \<Rightarrow> experience list" where
  "experienceEntries [] = []"
| "experienceEntries (line # rest) =
    (let years = yearTokens line in
       (if years \<noteq> [] then [experienceEntry line years rest] else [])
       @ experienceEntries rest)"

definition extractExperience :: "string \<Rightarrow> experience list" where
  "extractExperience text = take 5 (experienceEntries (split_lines text))"

subsection \<open>extractEducation\<close>

definition degreeKeywords :: "string list" where
  "degreeKeywords = [''bachelor'', ''master'', ''phd'', ''mba'', ''b.s.'', ''m.s.'', ''b.a.'', ''m.a.'']"

record education =
  degree :: string
  institution :: string
  graduation_year :: "int option"

fun educationEntries :: "string list \<Rightarrow> education list" where
  "educationEntries [] = []"
| "educationEntries (line # rest) =
    (let lineLower = toLowerCase line;
         hasDegree = list_ex (\<lambda>keyword. str_includes lineLower keyword) degreeKeywords
     in (if hasDegree
         then [\<lparr> degree = trim line,
                 institution = (let t = (case rest of [] \<Rightarrow> [] | nxt # _ \<Rightarrow> trim nxt)
                                in if t = [] then ''University'' else t),
                 graduation_year = (case yearTokens line of [] \<Rightarrow> None | y # _ \<Rightarrow> parseInt y) \<rparr>]
         else [])
        @ educationEntries rest)"

definition extractEducation :: "string \<Rightarrow> education list" where
  "extractEducation text = take 3 (educationEntries (split_lines text))"

subsection \<open>extractIndustries\<close>

definition commonIndustries :: "string list" where
  "commonIndustries =
    [''Technology'', ''Finance'', ''Healthcare'', ''Education'', ''Retail'',
     ''Manufacturing'', ''Consulting'', ''SaaS'', ''Fintech'', ''E-commerce'']"

definition extractIndustries :: "string \<Rightarrow> string list" where
  "extractIndustries text =
    (let textLower = toLowerCase text in
       filter (\<lambda>industry. str_includes textLower (toLowerCase industry)) commonIndustries)"

subsection \<open>extractContactInfo\<close>

text \<open>
  A pattern is matched by backtracking: a piece of a pattern maps the text still to be
  read to the list of texts left after it, the alternative tried first at the head.
  The first element of the last list is the match the engine reports.
\<close>

text \<open>One character of a class.\<close>

definition oneOf :: "(char \<Rightarrow> bool) \<Rightarrow> string \<Rightarrow> string list" where
  "oneOf P s = (case s of [] \<Rightarrow> [] | c # cs \<Rightarrow> if P c then [cs] else [])"

text \<open>\<^verbatim>\<open>[class]?\<close>, greedy: with the character first, then without.\<close>

definition optOf :: "(char \<Rightarrow> bool) \<Rightarrow> string \<Rightarrow> string list" where
  "optOf P s = oneOf P s @ [s]"

text \<open>\<^verbatim>\<open>[class]+\<close>, greedy: the longest run first, down to one character.\<close>

fun many1 :: "(char \<Rightarrow> bool) \<Rightarrow> string \<Rightarrow> string list" where
  "many1 P [] = []"
| "many1 P (c # cs) = (if P c then many1 P cs @ [cs] else [])"

text \<open>\<^verbatim>\<open>[class]{2,}\<close>\<close>

definition many2 :: "(char \<Rightarrow> bool) \<Rightarrow> string \<Rightarrow> string list" where
  "many2 P s = (case s of [] \<Rightarrow> [] | c # cs \<Rightarrow> if P c then many1 P cs else [])"

text \<open>\<^verbatim>\<open>\d{n}\<close>: the text after \<open>n\<close> digits, if it starts with as many.\<close>

fun digitsThen :: "nat \<Rightarrow> string \<Rightarrow> string option" where
  "digitsThen 0 s = Some s"
| "digitsThen (Suc n) [] = None"
| "digitsThen (Suc n) (c # cs) = (if isDigit c then digitsThen n cs else None)"

definition digitsOf :: "nat \<Rightarrow> string \<Rightarrow> string list" where
  "digitsOf n s = (case digitsThen n s of None \<Rightarrow> [] | Some r \<Rightarrow> [r])"

text \<open>\<^verbatim>\<open>\d{1,3}\<close>, greedy: three digits, then two, then one.\<close>

definition digits1to3 :: "string \<Rightarrow> string list" where
  "digits1to3 s =
    concat (map (\<lambda>r1. concat (map (\<lambda>r2. oneOf isDigit r2 @ [r2]) (oneOf isDigit r1)) @ [r1])
      (oneOf isDigit s))"

definition isAlnum :: "char \<Rightarrow> bool" where
  "isAlnum c = ((48 \<le> code c \<and> code c \<le> 57) \<or> (65 \<le> code c \<and> code c \<le> 90)
     \<or> (97 \<le> code c \<and> code c \<le> 122))"

definition isAlpha :: "char \<Rightarrow> bool" where
  "isAlpha c = ((65 \<le> code c \<and> code c \<le> 90) \<or> (97 \<le> code c \<and> code c \<le> 122))"

definition isChar :: "nat \<Rightarrow> char \<Rightarrow> bool" where
  "isChar n c = (code c = n)"

text \<open>\<^verbatim>\<open>[A-Za-z0-9._%+-]\<close>, \<^verbatim>\<open>[A-Za-z0-9.-]\<close> and \<^verbatim>\<open>[A-Z|a-z]\<close> (the bar is a member).\<close>

definition emailLocalChar :: "char \<Rightarrow> bool" where
  "emailLocalChar c = (isAlnum c \<or> code c = 46 \<or> code c = 95 \<or> code c = 37 \<or> code c = 43 \<or> code c = 45)"

definition emailDomainChar :: "char \<Rightarrow> bool" where
  "emailDomainChar c = (isAlnum c \<or> code c = 46 \<or> code c = 45)"

definition emailTldChar :: "char \<Rightarrow> bool" where
  "emailTldChar c = (isAlpha c \<or> code c = 124)"

text \<open>
  \<^verbatim>\<open>\b\<close> between the last character read and the text that follows: exactly one side
  is a word character.
\<close>

definition boundary :: "bool \<Rightarrow> string \<Rightarrow> bool" where
  "boundary prevWord s = (prevWord \<noteq> (case s of [] \<Rightarrow> False | c # _ \<Rightarrow> isWordChar c))"

text \<open>The text a match consumed: \<open>s\<close> without what is left.\<close>

definition consumed :: "string \<Rightarrow> string \<Rightarrow> string" where
  "consumed s r = take (length s - length r) s"

text \<open>\<^verbatim>\<open>/\b[A-Za-z0-9._%+-]+@[A-Za-z0-9.-]+\.[A-Z|a-z]{2,}\b/\<close> at the head of \<open>s\<close>.\<close>

definition emailAt :: "bool \<Rightarrow> string \<Rightarrow> string list" where
  "emailAt prevWord s =
    (if boundary prevWord s then
       filter (\<lambda>r. boundary (isWordChar (last (consumed s r))) r)
         (concat (map (\<lambda>r1.
            concat (map (\<lambda>r2.
              concat (map (\<lambda>r3.
                concat (map (\<lambda>r4. many2 emailTldChar r4) (oneOf (isChar 46) r3)))
                (many1 emailDomainChar r2)))
              (oneOf (isChar 64) r1)))
            (many1 emailLocalChar s)))
     else [])"

text \<open>\<^verbatim>\<open>/(\+?\d{1,3}[-.\s]?)?\(?\d{3}\)?[-.\s]?\d{3}[-.\s]?\d{4}/\<close> at the head of \<open>s\<close>.\<close>

definition phonePrefix :: "string \<Rightarrow> string list" where
  "phonePrefix s =
    concat (map (\<lambda>a. concat (map (\<lambda>b. optOf isSep b) (digits1to3 a))) (optOf (isChar 43) s))"

definition phoneNumberAt :: "string \<Rightarrow> string list" where
  "phoneNumberAt s =
    concat (map (\<lambda>a.
      concat (map (\<lambda>b.
        concat (map (\<lambda>c.
          concat (map (\<lambda>d.
            concat (map (\<lambda>e.
              concat (map (\<lambda>f.
                concat (map (\<lambda>g. digitsOf 4 g) (optOf isSep f)))
                (digitsOf 3 e)))
              (optOf isSep d)))
            (optOf (isChar 41) c)))
          (digitsOf 3 b)))
        (optOf (isChar 40) a)))
      (phonePrefix s @ [s]))"

text \<open>\<^verbatim>\<open>/linkedin\.com\/in\/[A-Za-z0-9-]+/i\<close> at the head of \<open>s\<close>.\<close>

definition linkedinAt :: "string \<Rightarrow> string list" where
  "linkedinAt s =
    (if startsWith (map canonChar s) (map canonChar ''linkedin.com/in/'')
     then many1 (\<lambda>c. isAlnum c \<or> code c = 45) (drop 16 s)
     else [])"

text \<open>
  \<^verbatim>\<open>text.match(re)\<close> without the \<^verbatim>\<open>g\<close> flag: the match at the leftmost position that has
  one; \<open>prevWord\<close> tells whether the character before is a word character.
\<close>

fun firstMatch :: "(bool \<Rightarrow> string \<Rightarrow> string list) \<Rightarrow> bool \<Rightarrow> string \<Rightarrow> string option" where
  "firstMatch pat prevWord [] = (case pat prevWord [] of [] \<Rightarrow> None | r # _ \<Rightarrow> Some (consumed [] r))"
| "firstMatch pat prevWord (c # cs) =
    (case pat prevWord (c # cs) of
       r # _ \<Rightarrow> Some (consumed (c # cs) r)
     | [] \<Rightarrow> firstMatch pat (isWordChar c) cs)"

fun orNull :: "string option \<Rightarrow> jsfield" where
  "orNull None = Null"
| "orNull (Some s) = Str s"

record contact_info =
  contact_name :: string
  email :: jsfield
  phone :: jsfield
  linkedin_url :: jsfield
  contact_location :: jsfield

definition extractContactInfo :: "string \<Rightarrow> contact_info" where
  "extractContactInfo text =
    (let emailMatch = firstMatch emailAt False text;
         phoneMatch = firstMatch (\<lambda>prevWord. phoneNumberAt) False text;
         linkedinMatch = firstMatch (\<lambda>prevWord. linkedinAt) False text;
         lines = filter (\<lambda>line. trim line \<noteq> []) (split_lines text);
         name = (case lines of [] \<Rightarrow> ''Unknown''
                 | l # _ \<Rightarrow> if trim l = [] then ''Unknown'' else trim l)
     in \<lparr> contact_name = name,
          email = orNull emailMatch,
          phone = orNull phoneMatch,
          linkedin_url = (case linkedinMatch of None \<Rightarrow> Null | Some m \<Rightarrow> Str (''https://'' @ m)),
          contact_location = Null \<rparr>)"

subsection \<open>extractSummary and extractCareerGoals\<close>

definition summaryKeywords :: "string list" where
  "summaryKeywords = [''summary'', ''objective'', ''profile'', ''about'']"

fun summaryAfterHeading :: "string list \<Rightarrow> string option" where
  "summaryAfterHeading [] = None"
| "summaryAfterHeading (l # rest) =
    (if list_ex (\<lambda>keyword. str_includes (toLowerCase l) keyword) summaryKeywords
     then Some (trim (join_space (take 3 rest)))
     else summaryAfterHeading rest)"

definition extractSummary :: "string \<Rightarrow> string" where
  "extractSummary text =
    (let lines = split_lines text in
       case summaryAfterHeading lines of
         Some s \<Rightarrow> s
       | None \<Rightarrow> trim (join_space (take 3 (drop 1 lines))))"

definition goalKeywords :: "string list" where
  "goalKeywords = [''seeking'', ''looking for'', ''interested in'', ''goal'', ''objective'']"

fun firstGoalLine :: "string list \<Rightarrow> string option" where
  "firstGoalLine [] = None"
| "firstGoalLine (l # rest) =
    (if list_ex (\<lambda>keyword. str_includes (toLowerCase l) keyword) goalKeywords
     then Some (trim l)
     else firstGoalLine rest)"

definition extractCareerGoals :: "string \<Rightarrow> string" where
  "extractCareerGoals text =
    (case firstGoalLine (split_lines text) of
       Some l \<Rightarrow> l
     | None \<Rightarrow> ''Seeking new opportunities'')"

subsection \<open>calculateAccuracyScore\<close>

text \<open>\<^verbatim>\<open>/\d{3}[-.\s]?\d{3}[-.\s]?\d{4}/\<close> at the head of a string, with both choices of
  each optional separator.\<close>

definition optSep :: "string \<Rightarrow> string list" where
  "optSep s = (case s of [] \<Rightarrow> [s] | c # cs \<Rightarrow> if isSep c then [cs, s] else [s])"

definition phoneAt :: "string \<Rightarrow> bool" where
  "phoneAt s =
    (case digitsThen 3 s of
       None \<Rightarrow> False
     | Some r1 \<Rightarrow>
         list_ex (\<lambda>r2. case digitsThen 3 r2 of
                          None \<Rightarrow> False
                        | Some r3 \<Rightarrow> list_ex (\<lambda>r4. digitsThen 4 r4 \<noteq> None) (optSep r3))
           (optSep r1))"

text \<open>\<^verbatim>\<open>(19|20)\d{2}\<close> at the head of a string (no word boundary here).\<close>

definition centuryAt :: "string \<Rightarrow> bool" where
  "centuryAt s = (case s of
      a # b # c # d # rest \<Rightarrow>
        ((a = CHR ''1'' \<and> b = CHR ''9'') \<or> (a = CHR ''2'' \<and> b = CHR ''0''))
        \<and> isDigit c \<and> isDigit d
    | _ \<Rightarrow> False)"

text \<open>\<^verbatim>\<open>re.test(s)\<close> for a pattern given by its match at the head of a suffix.\<close>

fun testAnywhere :: "(string \<Rightarrow> bool) \<Rightarrow> string \<Rightarrow> bool" where
  "testAnywhere p [] = p []"
| "testAnywhere p (c # cs) = (p (c # cs) \<or> testAnywhere p cs)"

definition accuracyChecks :: "string \<Rightarrow> bool list" where
  "accuracyChecks text =
    [ str_includes text ''@'',
      testAnywhere phoneAt text,
      testLiteralCI ''linkedin.com'' text,
      testAnywhere centuryAt text,
      testLiteralCI ''bachelor'' text \<or> testLiteralCI ''master'' text \<or> testLiteralCI ''phd'' text ]"

definition calculateAccuracyScore :: "string \<Rightarrow> rat" where
  "calculateAccuracyScore text =
    (let checks = accuracyChecks text;
         score = fdiv (of_nat (length (filter (\<lambda>b. b) checks))) (of_nat (length checks))
     in fmin (fadd score (tenths 2)) 1)"

section \<open>The matcher (\<^verbatim>\<open>matcher.js\<close>)\<close>

subsection \<open>Profiles and candidates\<close>

text \<open>
  The extracted CV data (\<open>cvData\<close>). The matcher guards every property it reads
  (\<^verbatim>\<open>cvData.skills || []\<close>, \<^verbatim>\<open>cvData.personal?.location\<close>, ...), so each of them may be
  absent in a stored profile. It does not guard the entries of the arrays: the name of
  a skill, an entry of \<open>industries\<close> and an entry of a person's \<open>skills\<close> are used as
  strings, and may be any value.
\<close>

record cvdata =
  personal :: "contact_info option"
  summary :: string
  skills :: "skill list option"
  experience :: "experience list option"
  education :: "education list"
  industries :: "jsfield list option"
  career_goals :: string
  accuracy_score :: rat

record company =
  c_name :: jsfield
  c_linkedin_url :: jsfield
  c_industry :: jsfield
  c_size :: jsfield
  c_location :: jsfield
  c_description :: jsfield

record person =
  p_name :: jsfield
  p_linkedin_url :: jsfield
  p_current_role :: jsfield
  p_current_company :: jsfield
  p_location :: jsfield
  p_headline :: jsfield
  p_skills :: "jsfield list option"

text \<open>The candidate with its score and rationale: \<^verbatim>\<open>{...candidate, match_score, ...}\<close>.\<close>

record ('c, 'r) match_result =
  candidate :: 'c
  match_score :: rat
  rationale :: 'r

record matching_criteria =
  matched_skills :: "jsfield list"
  matched_industries :: "jsfield list"
  location_match :: bool
  size_preference :: jsfield
  explanation :: string

record profile_rationale =
  shared_skills :: "string list"
  shared_interests :: "jsfield list"
  conversation_starter :: string

subsection \<open>Callbacks that may raise\<close>

text \<open>\<^verbatim>\<open>xs.map(f)\<close>, \<^verbatim>\<open>xs.filter(f)\<close> and \<^verbatim>\<open>xs.some(f)\<close> where the callback may raise:
  the first exception leaves the loop. \<^verbatim>\<open>some\<close> stops at the first entry that satisfies
  the callback, so the entries after it are not visited.\<close>

fun mapE :: "('a \<Rightarrow> error + 'b) \<Rightarrow> 'a list \<Rightarrow> error + 'b list" where
  "mapE f [] = Inr []"
| "mapE f (x # xs) =
    (case f x of
       Inl e \<Rightarrow> Inl e
     | Inr y \<Rightarrow> (case mapE f xs of Inl e \<Rightarrow> Inl e | Inr ys \<Rightarrow> Inr (y # ys)))"

fun filterE :: "('a \<Rightarrow> error + bool) \<Rightarrow> 'a list \<Rightarrow> error + 'a list" where
  "filterE f [] = Inr []"
| "filterE f (x # xs) =
    (case f x of
       Inl e \<Rightarrow> Inl e
     | Inr b \<Rightarrow> (case filterE f xs of
                   Inl e \<Rightarrow> Inl e
                 | Inr ys \<Rightarrow> Inr (if b then x # ys else ys)))"

fun someE :: "('a \<Rightarrow> error + bool) \<Rightarrow> 'a list \<Rightarrow> error + bool" where
  "someE f [] = Inr False"
| "someE f (x # xs) =
    (case f x of
       Inl e \<Rightarrow> Inl e
     | Inr b \<Rightarrow> if b then Inr True else someE f xs)"

text \<open>\<^verbatim>\<open>v.toLowerCase()\<close> on a property: a \<open>TypeError\<close> unless it is a string.\<close>

fun lowerE :: "jsfield \<Rightarrow> error + string" where
  "lowerE (Str n) = Inr (toLowerCase n)"
| "lowerE _ = Inl TypeError"

text \<open>\<^verbatim>\<open>(cvData.skills || []).map((s) => s.name.toLowerCase())\<close>\<close>

definition cvSkillsLower :: "cvdata \<Rightarrow> error + string list" where
  "cvSkillsLower cvData = mapE (\<lambda>s. lowerE (skill_name s)) (orEmptyList (skills cvData))"

text \<open>\<^verbatim>\<open>cvData.personal?.location\<close>\<close>

definition cvLocationOf :: "cvdata \<Rightarrow> jsfield" where
  "cvLocationOf cvData = (case personal cvData of None \<Rightarrow> Undefined | Some p \<Rightarrow> contact_location p)"

text \<open>\<^verbatim>\<open>v?.includes(t)\<close> on a property, as a condition: false on a nullish \<open>v\<close>.\<close>

fun includesOpt :: "jsfield \<Rightarrow> string \<Rightarrow> bool" where
  "includesOpt (Str s) t = str_includes s t"
| "includesOpt _ t = False"

subsection \<open>calculateCompanyMatchScore\<close>

text \<open>
  \<^verbatim>\<open>company.industry?.toLowerCase().includes(ind.toLowerCase())\<close>: on a nullish
  \<open>industry\<close> the optional chain ends before the argument is evaluated, and the
  condition is false; on a string, \<^verbatim>\<open>ind.toLowerCase()\<close> is evaluated and raises unless
  \<open>ind\<close> is a string.
\<close>

definition industryIncludes :: "company \<Rightarrow> jsfield \<Rightarrow> error + bool" where
  "industryIncludes company ind =
    (case c_industry company of
       Str i \<Rightarrow> (case lowerE ind of
                   Inl e \<Rightarrow> Inl e
                 | Inr l \<Rightarrow> Inr (str_includes (toLowerCase i) l))
     | _ \<Rightarrow> Inr False)"

definition companyIndustryMatch :: "company \<Rightarrow> cvdata \<Rightarrow> error + bool" where
  "companyIndustryMatch company cvData =
    someE (industryIncludes company) (orEmptyList (industries cvData))"

definition companyIndustryCredit :: "company \<Rightarrow> cvdata \<Rightarrow> error + rat option" where
  "companyIndustryCredit company cvData =
    (case companyIndustryMatch company cvData of
       Inl e \<Rightarrow> Inl e
     | Inr industryMatch \<Rightarrow> Inr (if industryMatch then Some (tenths 4) else None))"

definition companyText :: "company \<Rightarrow> string" where
  "companyText company = toLowerCase (tmpl (c_name company) @ '' '' @ tmpl (c_description company))"

definition companySkillsScore :: "company \<Rightarrow> string list \<Rightarrow> rat" where
  "companySkillsScore company cvSkills =
    (let matchingSkills = filter (\<lambda>skill. str_includes (companyText company) skill) cvSkills
     in fmin (fdiv (of_nat (length matchingSkills)) (of_nat (max (length cvSkills) 1))) 1)"

definition companySkillsCredit :: "company \<Rightarrow> string list \<Rightarrow> rat option" where
  "companySkillsCredit company cvSkills =
    (let skillsScore = companySkillsScore company cvSkills
     in Some (fmul skillsScore (tenths 3)))"

definition companyLocationCredit :: "company \<Rightarrow> cvdata \<Rightarrow> rat option" where
  "companyLocationCredit company cvData =
    (let cvLocation = cvLocationOf cvData in
       if truthy cvLocation \<and> includesOpt (c_location company) (orEmptyString cvLocation)
       then Some (tenths 2)
       else if truthy (c_location company) then Some (tenths 1)
       else None)"

definition companySizeCredit :: "company \<Rightarrow> rat option" where
  "companySizeCredit company =
    (if truthy (c_size company)
        \<and> (includesOpt (c_size company) ''51-200'' \<or> includesOpt (c_size company) ''201-500'')
     then Some (tenths 1) else None)"

definition calculateCompanyMatchScore :: "company \<Rightarrow> cvdata \<Rightarrow> error + rat" where
  "calculateCompanyMatchScore company cvData =
    (let score = 0 in
       case companyIndustryCredit company cvData of
         Inl e \<Rightarrow> Inl e
       | Inr industryCredit \<Rightarrow>
           (let score = addCredit score industryCredit in
              case cvSkillsLower cvData of
                Inl e \<Rightarrow> Inl e
              | Inr cvSkills \<Rightarrow>
                  (let score = addCredit score (companySkillsCredit company cvSkills);
                       score = addCredit score (companyLocationCredit company cvData);
                       score = addCredit score (companySizeCredit company)
                   in Inr (fmin score 1))))"

subsection \<open>getCompanyMatchingCriteria\<close>

definition getCompanyMatchingCriteria :: "company \<Rightarrow> cvdata \<Rightarrow> error + matching_criteria" where
  "getCompanyMatchingCriteria company cvData =
    (let cvSkills = map skill_name (orEmptyList (skills cvData));
         cvIndustries = orEmptyList (industries cvData)
     in case filterE (\<lambda>skill. case lowerE skill of
                                 Inl e \<Rightarrow> Inl e
                               | Inr l \<Rightarrow> Inr (str_includes (companyText company) l)) cvSkills of
          Inl e \<Rightarrow> Inl e
        | Inr matchedSkills \<Rightarrow>
            (case filterE (industryIncludes company) cvIndustries of
               Inl e \<Rightarrow> Inl e
             | Inr matchedIndustries \<Rightarrow>
                 Inr \<lparr> matched_skills = take 5 matchedSkills,
                        matched_industries = matchedIndustries,
                        location_match =
                          includesOpt (c_location company) (orEmptyString (cvLocationOf cvData)),
                        size_preference = c_size company,
                        explanation = ''Matches '' @ showNat (length matchedSkills)
                          @ '' of your key skills and operates in your target industry.'' \<rparr>))"

subsection \<open>rankCompanies\<close>

text \<open>
  \<^verbatim>\<open>xs.sort((a, b) => b.match_score - a.match_score)\<close>: the comparator is consistent (the
  scores are finite doubles and the sign of their difference is exact), so the result
  is the stable sort by descending score.
\<close>

definition sortByScoreDesc :: "('c, 'r) match_result list \<Rightarrow> ('c, 'r) match_result list" where
  "sortByScoreDesc xs = sort_key (\<lambda>r. - match_score r) xs"

definition rankCompany :: "cvdata \<Rightarrow> company \<Rightarrow> error + (company, matching_criteria) match_result" where
  "rankCompany cvData company =
    (case calculateCompanyMatchScore company cvData of
       Inl e \<Rightarrow> Inl e
     | Inr matchScore \<Rightarrow>
         (case getCompanyMatchingCriteria company cvData of
            Inl e \<Rightarrow> Inl e
          | Inr matchingCriteria \<Rightarrow>
              Inr \<lparr> candidate = company,
                     match_score = parseFloat (toFixed2 matchScore),
                     rationale = matchingCriteria \<rparr>))"

definition rankCompanies ::
  "company list option \<Rightarrow> cvdata option \<Rightarrow> error + (company, matching_criteria) match_result list" where
  "rankCompanies companies cvData =
    (case (companies, cvData) of
       (Some cs, Some cv) \<Rightarrow>
         (case mapE (rankCompany cv) cs of
            Inl e \<Rightarrow> Inl e
          | Inr rankedCompanies \<Rightarrow> Inr (sortByScoreDesc rankedCompanies))
     | _ \<Rightarrow> Inr [])"

subsection \<open>calculateProfileMatchScore\<close>

text \<open>\<^verbatim>\<open>(profile.skills || []).map((s) => s.toLowerCase())\<close>\<close>

definition profileSkillsLower :: "person \<Rightarrow> error + string list" where
  "profileSkillsLower profile = mapE lowerE (orEmptyList (p_skills profile))"

definition sharedSkillsScore :: "string list \<Rightarrow> string list \<Rightarrow> rat" where
  "sharedSkillsScore profileSkills cvSkills =
    (let sharedCount = length (filter (\<lambda>skill. skill \<in> set profileSkills) cvSkills)
     in fmin (fdiv (of_nat sharedCount) (of_nat (max (length cvSkills) 1))) 1)"

definition sharedSkillsCredit :: "string list \<Rightarrow> string list \<Rightarrow> rat option" where
  "sharedSkillsCredit profileSkills cvSkills =
    (let skillsScore = sharedSkillsScore profileSkills cvSkills
     in Some (fmul skillsScore (tenths 4)))"

definition profileText :: "person \<Rightarrow> string" where
  "profileText profile =
    toLowerCase (tmpl (p_headline profile) @ '' '' @ tmpl (p_current_company profile))"

text \<open>\<^verbatim>\<open>(cvData.industries || []).map((i) => i.toLowerCase())\<close>\<close>

definition cvIndustriesLower :: "cvdata \<Rightarrow> error + string list" where
  "cvIndustriesLower cvData = mapE lowerE (orEmptyList (industries cvData))"

definition profileIndustryCredit :: "person \<Rightarrow> cvdata \<Rightarrow> error + rat option" where
  "profileIndustryCredit profile cvData =
    (case cvIndustriesLower cvData of
       Inl e \<Rightarrow> Inl e
     | Inr cvIndustries \<Rightarrow>
         (let industryMatch = list_ex (\<lambda>ind. str_includes (profileText profile) ind) cvIndustries
          in Inr (if industryMatch then Some (tenths 3) else None)))"

text \<open>\<^verbatim>\<open>cvData.experience?.length || 0\<close>\<close>

definition cvExperienceCount :: "cvdata \<Rightarrow> nat" where
  "cvExperienceCount cvData = (case experience cvData of None \<Rightarrow> 0 | Some es \<Rightarrow> length es)"

text \<open>\<^verbatim>\<open>/senior|lead|manager|director/i.test(profile.current_role || '')\<close>\<close>

definition isSeniorRole :: "person \<Rightarrow> bool" where
  "isSeniorRole profile =
    (let role = orEmptyString (p_current_role profile) in
       testLiteralCI ''senior'' role \<or> testLiteralCI ''lead'' role
       \<or> testLiteralCI ''manager'' role \<or> testLiteralCI ''director'' role)"

definition seniorityCredit :: "person \<Rightarrow> cvdata \<Rightarrow> rat option" where
  "seniorityCredit profile cvData =
    (let cvExperience = cvExperienceCount cvData in
       if 5 \<le> cvExperience \<and> isSeniorRole profile then Some (tenths 2)
       else if cvExperience < 5 \<and> \<not> isSeniorRole profile then Some (tenths 2)
       else Some (tenths 1))"

definition profileLocationCredit :: "person \<Rightarrow> cvdata \<Rightarrow> rat option" where
  "profileLocationCredit profile cvData =
    (let cvLocation = cvLocationOf cvData in
       if truthy cvLocation \<and> includesOpt (p_location profile) (orEmptyString cvLocation)
       then Some (tenths 1) else None)"

definition calculateProfileMatchScore :: "person \<Rightarrow> cvdata \<Rightarrow> error + rat" where
  "calculateProfileMatchScore profile cvData =
    (let score = 0 in
       case cvSkillsLower cvData of
         Inl e \<Rightarrow> Inl e
       | Inr cvSkills \<Rightarrow>
           (case profileSkillsLower profile of
              Inl e \<Rightarrow> Inl e
            | Inr profileSkills \<Rightarrow>
                (let score = addCredit score (sharedSkillsCredit profileSkills cvSkills) in
                   case profileIndustryCredit profile cvData of
                     Inl e \<Rightarrow> Inl e
                   | Inr industryCredit \<Rightarrow>
                       (let score = addCredit score industryCredit;
                            score = addCredit score (seniorityCredit profile cvData);
                            score = addCredit score (profileLocationCredit profile cvData)
                        in Inr (fmin score 1)))))"

subsection \<open>getSharedSkills, getSharedInterests, generateConversationStarter\<close>

definition getSharedSkills :: "person \<Rightarrow> cvdata \<Rightarrow> error + string list" where
  "getSharedSkills profile cvData =
    (case cvSkillsLower cvData of
       Inl e \<Rightarrow> Inl e
     | Inr cvSkills \<Rightarrow>
         (case profileSkillsLower profile of
            Inl e \<Rightarrow> Inl e
          | Inr profileSkills \<Rightarrow>
              Inr (take 5 (filter (\<lambda>skill. skill \<in> set profileSkills) cvSkills))))"

definition getSharedInterests :: "person \<Rightarrow> cvdata \<Rightarrow> error + jsfield list" where
  "getSharedInterests profile cvData =
    filterE (\<lambda>ind. case lowerE ind of
                      Inl e \<Rightarrow> Inl e
                    | Inr l \<Rightarrow> Inr (str_includes (profileText profile) l))
      (orEmptyList (industries cvData))"

text \<open>\<^verbatim>\<open>`${profile.name?.split(' ')[0]}`\<close>\<close>

definition firstName :: "person \<Rightarrow> string" where
  "firstName profile =
    (case p_name profile of
       Str n \<Rightarrow> takeWhile (\<lambda>c. code c \<noteq> 32) n
     | _ \<Rightarrow> ''undefined'')"

definition apostrophe :: string where
  "apostrophe = [char_of (39 :: nat)]"

definition generateConversationStarter :: "person \<Rightarrow> cvdata \<Rightarrow> error + string" where
  "generateConversationStarter profile cvData =
    (case getSharedSkills profile cvData of
       Inl e \<Rightarrow> Inl e
     | Inr sharedSkills \<Rightarrow>
         (case getSharedInterests profile cvData of
            Inl e \<Rightarrow> Inl e
          | Inr sharedInterests \<Rightarrow>
            if sharedSkills \<noteq> [] \<and> sharedInterests \<noteq> [] then
              Inr (''Hi '' @ firstName profile @ '', I noticed we both have experience with ''
                @ hd sharedSkills @ '' and share an interest in '' @ tmpl (hd sharedInterests)
                @ ''. I'' @ apostrophe @ ''m currently exploring opportunities in this space and would love to hear about your journey to ''
                @ tmpl (p_current_role profile) @ '' at '' @ tmpl (p_current_company profile) @ ''.'')
            else if sharedSkills \<noteq> [] then
              Inr (''Hi '' @ firstName profile @ '', I saw that we both work with '' @ hd sharedSkills
                @ ''. I'' @ apostrophe @ ''d love to learn more about how you use it in your role at ''
                @ tmpl (p_current_company profile) @ ''.'')
            else if sharedInterests \<noteq> [] then
              Inr (''Hi '' @ firstName profile @ '', I'' @ apostrophe @ ''m interested in '' @ tmpl (hd sharedInterests)
                @ '' and noticed you'' @ apostrophe @ ''re working in this field. Would you be open to a brief chat about your experience at ''
                @ tmpl (p_current_company profile) @ ''?'')
            else
              Inr (''Hi '' @ firstName profile
                @ '', I came across your profile and am impressed by your work at ''
                @ tmpl (p_current_company profile) @ ''. I'' @ apostrophe
                @ ''d love to connect and learn more about your career path.'')))"

subsection \<open>rankProfiles\<close>

definition rankProfile :: "cvdata \<Rightarrow> person \<Rightarrow> error + (person, profile_rationale) match_result" where
  "rankProfile cvData profile =
    (case calculateProfileMatchScore profile cvData of
       Inl e \<Rightarrow> Inl e
     | Inr matchScore \<Rightarrow>
         (case getSharedSkills profile cvData of
            Inl e \<Rightarrow> Inl e
          | Inr sharedSkills \<Rightarrow>
              (case getSharedInterests profile cvData of
                 Inl e \<Rightarrow> Inl e
               | Inr sharedInterests \<Rightarrow>
                   (case generateConversationStarter profile cvData of
                      Inl e \<Rightarrow> Inl e
                    | Inr conversationStarter \<Rightarrow>
                        Inr \<lparr> candidate = profile,
                               match_score = parseFloat (toFixed2 matchScore),
                               rationale = \<lparr> shared_skills = sharedSkills,
                                             shared_interests = sharedInterests,
                                             conversation_starter = conversationStarter \<rparr> \<rparr>))))"

definition rankProfiles ::
  "person list option \<Rightarrow> cvdata option \<Rightarrow> error + (person, profile_rationale) match_result list" where
  "rankProfiles profiles cvData =
    (case (profiles, cvData) of
       (Some ps, Some cv) \<Rightarrow>
         (case mapE (rankProfile cv) ps of
            Inl e \<Rightarrow> Inl e
          | Inr rankedProfiles \<Rightarrow> Inr (sortByScoreDesc rankedProfiles))
     | _ \<Rightarrow> Inr [])"

subsection \<open>The profile that parseCV builds from the text\<close>

definition extractedData :: "string \<Rightarrow> cvdata" where
  "extractedData text =
    \<lparr> personal = Some (extractContactInfo text),
      summary = extractSummary text,
      skills = Some (extractSkills text),
      experience = Some (extractExperience text),
      education = extractEducation text,
      industries = Some (map Str (extractIndustries text)),
      career_goals = extractCareerGoals text,
      accuracy_score = calculateAccuracyScore text \<rparr>"

section \<open>Notions of the specification\<close>

subsection \<open>Year tokens of a line, by position\<close>

text \<open>
  A year token starts at position \<open>i\<close> of a line when \<^verbatim>\<open>19dd\<close> or \<^verbatim>\<open>20dd\<close> stands there
  between two word boundaries. The tokens of a line are listed in reading order.
\<close>

definition isYearTokenAt :: "string \<Rightarrow> nat \<Rightarrow> bool" where
  "isYearTokenAt line i =
    (i < length line \<and> yearAt (drop i line) \<and> (i = 0 \<or> \<not> isWordChar (line ! (i - 1))))"

definition yearTokenPositions :: "string \<Rightarrow> nat list" where
  "yearTokenPositions line = filter (isYearTokenAt line) [0..<length line]"

definition lineYearTokens :: "string \<Rightarrow> string list" where
  "lineYearTokens line = map (\<lambda>i. take 4 (drop i line)) (yearTokenPositions line)"

text \<open>The scan that tries the pattern at every position, one character at a time.\<close>

fun scanYears :: "bool \<Rightarrow> string \<Rightarrow> string list" where
  "scanYears prevWord [] = []"
| "scanYears prevWord (c # cs) =
    (if \<not> prevWord \<and> yearAt (c # cs) then [take 4 (c # cs)] else [])
    @ scanYears (isWordChar c) cs"

text \<open>The number a year token denotes.\<close>

definition yearNumber :: "string \<Rightarrow> int" where
  "yearNumber t = foldl (\<lambda>acc d. 10 * acc + digitVal d) 0 t"

subsection \<open>The confidence checklist as the specification words it\<close>

text \<open>
  The fifth signal of the checklist is the presence of any degree keyword: bachelor,
  master, phd, mba and the abbreviated forms, which are the keywords of
  \<open>extractEducation\<close>, matched without regard to case. The other four signals and the
  formula are those of \<open>calculateAccuracyScore\<close>.
\<close>

definition specDegreeSignal :: "string \<Rightarrow> bool" where
  "specDegreeSignal text = list_ex (\<lambda>keyword. testLiteralCI keyword text) degreeKeywords"

definition specChecks :: "string \<Rightarrow> bool list" where
  "specChecks text =
    [ str_includes text ''@'',
      testAnywhere phoneAt text,
      testLiteralCI ''linkedin.com'' text,
      testAnywhere centuryAt text,
      specDegreeSignal text ]"

definition specConfidenceScore :: "string \<Rightarrow> rat" where
  "specConfidenceScore text =
    fmin (fadd (fdiv (of_nat (length (filter (\<lambda>b. b) (specChecks text)))) 5) (tenths 2)) 1"

subsection \<open>Profiles and persons whose array entries are strings\<close>





text \<open>A property that is \<open>undefined\<close> or \<open>null\<close>.\<close>

fun absent :: "jsfield \<Rightarrow> bool" where
  "absent (Str s) = False"
| "absent _ = True"

subsection \<open>A score as the capped sum of its terms\<close>

text \<open>
  The score that the steps \<^verbatim>\<open>score += w\<close> build from the given terms, in this order,
  followed by \<^verbatim>\<open>Math.min(score, 1.0)\<close>. A term \<open>None\<close> is a step that is not taken.
\<close>

definition cappedSum :: "rat option list \<Rightarrow> rat" where
  "cappedSum terms = fmin (foldl addCredit 0 terms) 1"

section \<open>Scenarios\<close>

definition emptyProfile :: cvdata where
  "emptyProfile = \<lparr> personal = None, summary = [], skills = None, experience = None,
     education = [], industries = None, career_goals = [], accuracy_score = 0 \<rparr>"

definition bareCompany :: company where
  "bareCompany = \<lparr> c_name = Undefined, c_linkedin_url = Undefined, c_industry = Undefined,
     c_size = Undefined, c_location = Undefined, c_description = Undefined \<rparr>"

definition barePerson :: person where
  "barePerson = \<lparr> p_name = Undefined, p_linkedin_url = Undefined, p_current_role = Undefined,
     p_current_company = Undefined, p_location = Undefined, p_headline = Undefined,
     p_skills = None \<rparr>"

text \<open>The company scenario: skills Python and AWS, industry Technology, and TechCorp.\<close>

definition pythonAwsProfile :: cvdata where
  "pythonAwsProfile = emptyProfile \<lparr>
     skills := Some [\<lparr>skill_name = Str ''Python'', category = TECHNICAL\<rparr>,
                     \<lparr>skill_name = Str ''AWS'', category = TECHNICAL\<rparr>],
     industries := Some [Str ''Technology''] \<rparr>"

definition techCorp :: company where
  "techCorp = \<lparr> c_name = Str ''TechCorp'', c_linkedin_url = Undefined,
     c_industry = Str ''Technology'', c_size = Str ''51-200'', c_location = Str ''SF'',
     c_description = Str ''uses Python and AWS'' \<rparr>"

text \<open>The person scenario: skill Kubernetes, five experience entries, a senior engineer.\<close>

definition kubernetesProfile :: cvdata where
  "kubernetesProfile = emptyProfile \<lparr>
     skills := Some [\<lparr>skill_name = Str ''Kubernetes'', category = TECHNICAL\<rparr>],
     experience := Some (replicate 5 (experienceEntry ''Engineer 2019'' [''2019''] [])) \<rparr>"

definition seniorEngineer :: person where
  "seniorEngineer = barePerson \<lparr> p_current_role := Str ''Senior Engineer'',
     p_skills := Some [Str ''Kubernetes'', Str ''Docker''] \<rparr>"

text \<open>A profile that lists one skill in two spellings, and a person who has it.\<close>

definition twoSpellingsProfile :: cvdata where
  "twoSpellingsProfile = emptyProfile \<lparr>
     skills := Some [\<lparr>skill_name = Str ''Python'', category = TECHNICAL\<rparr>,
                     \<lparr>skill_name = Str ''python'', category = TECHNICAL\<rparr>] \<rparr>"

definition pythonPerson :: person where
  "pythonPerson = barePerson \<lparr> p_skills := Some [Str ''python''] \<rparr>"

text \<open>A company whose location is the empty string.\<close>

definition nowhereCompany :: company where
  "nowhereCompany = bareCompany \<lparr> c_location := Str [] \<rparr>"

text \<open>A profile with a skill called "Null", and a company whose name and description are null.\<close>

definition nullSkillProfile :: cvdata where
  "nullSkillProfile = emptyProfile \<lparr>
     skills := Some [\<lparr>skill_name = Str ''Null'', category = TECHNICAL\<rparr>] \<rparr>"

definition nullCompany :: company where
  "nullCompany = bareCompany \<lparr> c_name := Null, c_description := Null \<rparr>"

text \<open>A profile whose only industry is \<open>null\<close>, and a person with a skill that is \<open>null\<close>.\<close>

definition nullIndustryProfile :: cvdata where
  "nullIndustryProfile = emptyProfile \<lparr> industries := Some [Null] \<rparr>"

definition nullSkillPerson :: person where
  "nullSkillPerson = barePerson \<lparr> p_skills := Some [Null] \<rparr>"

section \<open>Properties\<close>

subsection \<open>Rounding keeps a score between 0 and 1\<close>

lemma pow2_pos: "0 < pow2 e"
  by (simp add: pow2_def)

lemma roundHalfEven_nonneg: "0 \<le> q \<Longrightarrow> 0 \<le> roundHalfEven q"
  by (auto simp: roundHalfEven_def Let_def)

lemma roundHalfEven_le:
  assumes "q \<le> of_int k"
  shows "roundHalfEven q \<le> k"
proof (cases "q = of_int k")
  case True
  then show ?thesis by (simp add: roundHalfEven_def)
next
  case False
  with assms have "q < of_int k" by simp
  then have "\<lfloor>q\<rfloor> < k" by (simp add: floor_less_iff)
  then show ?thesis by (auto simp: roundHalfEven_def Let_def)
qed

lemma rd_nonneg:
  assumes "0 \<le> x"
  shows "0 \<le> rd x"
proof -
  let ?u = "pow2 (ilog2 \<bar>x\<bar> - 52)"
  have "0 \<le> \<bar>x\<bar> / ?u"
    using pow2_pos [of "ilog2 \<bar>x\<bar> - 52"] by simp
  then have "0 \<le> roundHalfEven (\<bar>x\<bar> / ?u)"
    by (rule roundHalfEven_nonneg)
  then have "0 \<le> rat_of_int (roundHalfEven (\<bar>x\<bar> / ?u)) * ?u"
    using pow2_pos [of "ilog2 \<bar>x\<bar> - 52"] by simp
  with assms show ?thesis by (simp add: rd_def Let_def)
qed

lemma ilog2_le_zero:
  assumes "0 < x" and "x \<le> 1"
  shows "ilog2 x \<le> 0"
proof -
  obtain p q where pq: "quotient_of x = (p, q)" by (cases "quotient_of x")
  then have q: "0 < q" and xe: "x = of_int p / of_int q"
    using quotient_of_denom_pos [OF pq] quotient_of_div [OF pq] by simp_all
  from assms xe q have "p \<le> q" by (simp add: divide_le_eq)
  then have "bitlen p \<le> bitlen q"
    by (simp add: bitlen_def floorlog_mono nat_mono)
  then show ?thesis by (simp add: ilog2_def pq Let_def)
qed

lemma rd_le_one:
  assumes "0 \<le> x" and "x \<le> 1"
  shows "rd x \<le> 1"
proof (cases "x = 0")
  case True
  then show ?thesis by (simp add: rd_def)
next
  case False
  with assms have pos: "0 < x" by simp
  define e where "e = ilog2 x - 52"
  have e: "e < 0" using ilog2_le_zero [OF pos assms(2)] by (simp add: e_def)
  then have u: "pow2 e = 1 / 2 ^ nat (- e)" by (simp add: pow2_def)
  have "x / pow2 e = x * 2 ^ nat (- e)" by (simp add: u)
  also have "\<dots> \<le> 2 ^ nat (- e)" using assms by (simp add: mult_le_cancel_right1)
  finally have "x / pow2 e \<le> rat_of_int (2 ^ nat (- e))" by simp
  then have "roundHalfEven (x / pow2 e) \<le> 2 ^ nat (- e)" by (rule roundHalfEven_le)
  then have "rat_of_int (roundHalfEven (x / pow2 e)) \<le> 2 ^ nat (- e)"
    by (metis of_int_le_iff of_int_numeral of_int_power)
  then have "rat_of_int (roundHalfEven (x / pow2 e)) * pow2 e \<le> 1"
    by (simp add: u pos_divide_le_eq)
  with pos show ?thesis by (simp add: rd_def Let_def e_def)
qed

lemma toFixed2_nonneg: "0 \<le> x \<Longrightarrow> 0 \<le> toFixed2 x"
  by (simp add: toFixed2_def)

lemma toFixed2_le_one:
  assumes "0 \<le> x" and "x \<le> 1"
  shows "toFixed2 x \<le> 1"
proof -
  have "100 * x + 1 / 2 < 101" using assms by simp
  then have "\<lfloor>100 * x + 1 / 2\<rfloor> < 101" by (simp add: floor_less_iff)
  then have "\<lfloor>100 * x + 1 / 2\<rfloor> \<le> 100" by simp
  then have "rat_of_int \<lfloor>100 * x + 1 / 2\<rfloor> \<le> 100" by (metis of_int_le_iff of_int_numeral)
  with assms show ?thesis by (simp add: toFixed2_def)
qed

lemma roundedScore_bounds:
  "0 \<le> x \<Longrightarrow> x \<le> 1 \<Longrightarrow> 0 \<le> parseFloat (toFixed2 x) \<and> parseFloat (toFixed2 x) \<le> 1"
  by (simp add: parseFloat_def rd_nonneg rd_le_one toFixed2_nonneg toFixed2_le_one)

lemma tenths_nonneg: "0 \<le> k \<Longrightarrow> 0 \<le> tenths k"
  by (simp add: tenths_def rd_nonneg)

lemma addCredit_nonneg: "0 \<le> s \<Longrightarrow> 0 \<le> creditValue c \<Longrightarrow> 0 \<le> addCredit s c"
  by (cases c) (simp_all add: fadd_def rd_nonneg)

lemma ratio_nonneg: "0 \<le> fmin (fdiv (of_nat a) (of_nat b)) 1"
  by (simp add: fmin_def fdiv_def rd_nonneg)

lemma fmin_one_bounds: "0 \<le> s \<Longrightarrow> 0 \<le> fmin s 1 \<and> fmin s 1 \<le> 1"
  by (simp add: fmin_def)

subsection \<open>The rounding is to the nearest double\<close>

lemma pow2_diff: "pow2 (int m - int n) = 2 ^ m / 2 ^ n"
proof (cases "n \<le> m")
  case True
  then have "pow2 (int m - int n) = 2 ^ (m - n)"
    by (simp add: pow2_def nat_diff_distrib')
  with True show ?thesis by (simp add: power_diff)
next
  case False
  then have "pow2 (int m - int n) = 1 / 2 ^ (n - m)"
    by (simp add: pow2_def nat_diff_distrib')
  moreover from False have "(2::rat) ^ n = 2 ^ (n - m) * 2 ^ m"
    by (simp add: power_add [symmetric])
  ultimately show ?thesis by simp
qed

lemma ilog2_bounds:
  assumes "0 < x"
  shows "pow2 (ilog2 x) \<le> x \<and> x < pow2 (ilog2 x + 1)"
proof -
  obtain p q where pq: "quotient_of x = (p, q)" by (cases "quotient_of x")
  then have q: "0 < q" and xe: "x = of_int p / of_int q"
    using quotient_of_denom_pos [OF pq] quotient_of_div [OF pq] by simp_all
  with assms have p: "0 < p" by (simp add: zero_less_divide_iff)
  define a b where "a = nat (bitlen p)" and "b = nat (bitlen q)"
  from p q have a1: "1 \<le> a" and b1: "1 \<le> b"
    using bitlen_bounds [of p] bitlen_bounds [of q] bitlen_nonneg [of p] bitlen_nonneg [of q]
    by (auto simp: a_def b_def bitlen_eq_zero_iff Suc_le_eq nat_less_iff dest: order_less_le_trans)
  have ab: "bitlen p = int a" "bitlen q = int b"
    by (simp_all add: a_def b_def bitlen_nonneg)
  from bitlen_bounds [OF p] have pb: "2 ^ (a - 1) \<le> p" "p < 2 ^ a"
    by (simp_all add: ab nat_diff_distrib')
  from bitlen_bounds [OF q] have qb: "2 ^ (b - 1) \<le> q" "q < 2 ^ b"
    by (simp_all add: ab nat_diff_distrib')
  have rp: "(2::rat) ^ (a - 1) \<le> of_int p" "rat_of_int p < 2 ^ a"
    using pb by (metis of_int_le_iff of_int_numeral of_int_power,
        metis of_int_less_iff of_int_numeral of_int_power)
  have rq: "(2::rat) ^ (b - 1) \<le> of_int q" "rat_of_int q < 2 ^ b"
    using qb by (metis of_int_le_iff of_int_numeral of_int_power,
        metis of_int_less_iff of_int_numeral of_int_power)
  have qpos: "0 < rat_of_int q" and ppos: "0 < rat_of_int p" using p q by simp_all
  have upper: "x < pow2 (int a - int (b - 1))"
  proof -
    have "x < 2 ^ a / of_int q" unfolding xe using rp(2) qpos by (simp add: divide_strict_right_mono)
    also have "\<dots> \<le> 2 ^ a / 2 ^ (b - 1)" using rq(1) by (simp add: frac_le)
    finally show ?thesis by (simp only: pow2_diff)
  qed
  have lower: "pow2 (int (a - 1) - int b) \<le> x"
  proof -
    have "(2::rat) ^ (a - 1) / 2 ^ b \<le> of_int p / 2 ^ b" using rp(1) by (simp add: divide_right_mono)
    also have "\<dots> \<le> of_int p / of_int q" using rq(2) qpos ppos by (simp add: frac_le)
    finally show ?thesis by (simp only: pow2_diff xe)
  qed
  from a1 b1 have up: "int a - int (b - 1) = int a - int b + 1"
    and lo: "int (a - 1) - int b = int a - int b - 1" by auto
  from upper have upper': "x < pow2 (int a - int b + 1)" by (simp only: up)
  from lower have lower': "pow2 (int a - int b - 1) \<le> x" by (simp only: lo)
  show ?thesis
  proof (cases "pow2 (int a - int b) \<le> x")
    case True
    then have "ilog2 x = int a - int b" by (simp add: ilog2_def pq ab)
    with True upper' show ?thesis by simp
  next
    case False
    then have "ilog2 x = int a - int b - 1" by (simp add: ilog2_def pq ab)
    with False lower' show ?thesis by simp
  qed
qed

lemma pow2_add: "pow2 (a + b) = pow2 a * pow2 b"
proof -
  have a: "a = int (nat a) - int (nat (- a))" and b: "b = int (nat b) - int (nat (- b))"
    by simp_all
  have "a + b = int (nat a + nat b) - int (nat (- a) + nat (- b))" by simp
  then have "pow2 (a + b) = 2 ^ (nat a + nat b) / 2 ^ (nat (- a) + nat (- b))"
    by (simp only: pow2_diff)
  also have "\<dots> = (2 ^ nat a / 2 ^ nat (- a)) * (2 ^ nat b / 2 ^ nat (- b))"
    by (simp add: power_add)
  also have "\<dots> = pow2 (int (nat a) - int (nat (- a))) * pow2 (int (nat b) - int (nat (- b)))"
    by (simp only: pow2_diff)
  finally show ?thesis using a b by simp
qed

lemma pow2_numerals: "pow2 52 = 2 ^ 52" "pow2 53 = 2 ^ 53"
  by (simp_all add: pow2_def)

lemma roundHalfEven_near: "\<bar>of_int (roundHalfEven q) - q\<bar> \<le> 1 / 2"
proof -
  have "of_int \<lfloor>q\<rfloor> \<le> q" and "q < of_int \<lfloor>q\<rfloor> + 1" by linarith+
  then show ?thesis by (auto simp: roundHalfEven_def Let_def abs_le_iff)
qed

lemma roundHalfEven_ge:
  assumes "of_int k \<le> q"
  shows "k \<le> roundHalfEven q"
proof -
  from assms have "k \<le> \<lfloor>q\<rfloor>" by (simp add: le_floor_iff)
  then show ?thesis by (auto simp: roundHalfEven_def Let_def)
qed

text \<open>
  Rounding a positive number gives a multiple of the unit in the last place with a
  significand of 53 bits (or the next power of two), at most half a unit away.
\<close>

lemma rd_nearest:
  assumes "0 < x"
  shows "\<exists>m. rd x = of_int m * pow2 (ilog2 x - 52) \<and> 2 ^ 52 \<le> m \<and> m \<le> 2 ^ 53
    \<and> \<bar>rd x - x\<bar> \<le> pow2 (ilog2 x - 52) / 2"
proof -
  define u where "u = pow2 (ilog2 x - 52)"
  define m where "m = roundHalfEven (x / u)"
  have u: "0 < u" by (simp add: u_def pow2_pos)
  have rd: "rd x = of_int m * u" using assms by (simp add: rd_def Let_def m_def u_def)
  have "ilog2 x = 52 + (ilog2 x - 52)" and "ilog2 x + 1 = 53 + (ilog2 x - 52)" by simp_all
  then have "pow2 (ilog2 x) = pow2 52 * u" and "pow2 (ilog2 x + 1) = pow2 53 * u"
    unfolding u_def by (metis pow2_add)+
  then have e: "pow2 (ilog2 x) = 2 ^ 52 * u" and e1: "pow2 (ilog2 x + 1) = 2 ^ 53 * u"
    by (simp_all only: pow2_numerals)
  from ilog2_bounds [OF assms] have "2 ^ 52 * u \<le> x" and "x < 2 ^ 53 * u"
    by (simp_all only: e e1)
  with u have lo: "rat_of_int (2 ^ 52) \<le> x / u" and hi: "x / u \<le> rat_of_int (2 ^ 53)"
    by (simp_all add: pos_le_divide_eq pos_divide_le_eq)
  from lo have m1: "2 ^ 52 \<le> m" unfolding m_def by (rule roundHalfEven_ge)
  from hi have m2: "m \<le> 2 ^ 53" unfolding m_def by (rule roundHalfEven_le)
  have "\<bar>rat_of_int m - x / u\<bar> \<le> 1 / 2" unfolding m_def by (rule roundHalfEven_near)
  then have "\<bar>rat_of_int m - x / u\<bar> * u \<le> 1 / 2 * u"
    using u by (simp only: mult_le_cancel_right_pos)
  moreover have "\<bar>rat_of_int m - x / u\<bar> * u = \<bar>of_int m * u - x\<bar>"
  proof -
    have "\<bar>rat_of_int m - x / u\<bar> * u = \<bar>rat_of_int m - x / u\<bar> * \<bar>u\<bar>"
      using u by simp
    also have "\<dots> = \<bar>(rat_of_int m - x / u) * u\<bar>" by (simp only: abs_mult)
    also have "(rat_of_int m - x / u) * u = of_int m * u - x"
      using u by (simp add: left_diff_distrib)
    finally show ?thesis .
  qed
  ultimately have "\<bar>rd x - x\<bar> \<le> u / 2" by (simp add: rd)
  with rd m1 m2 show ?thesis unfolding u_def by blast
qed

text \<open>Some well-known results of binary64 arithmetic, and the two case mappings.\<close>

lemma binary64_examples:
  "fadd (tenths 1) (tenths 2) = tenths 3 + 1 / 2 ^ 54"
  "fadd (tenths 4) (tenths 3) = tenths 7"
  "fadd (tenths 7) (tenths 1) = tenths 8 - 1 / 2 ^ 53"
  "fmul (1 / 4) (tenths 3) < 75 / 1000"
  by code_simp+

lemma case_mapping_examples:
  "toLowerCase ''ABCDEFGHIJKLMNOPQRSTUVWXYZ'' = ''abcdefghijklmnopqrstuvwxyz''"
  "toLowerCase ''abcxyz 0123456789 @[`{ +-./_'' = ''abcxyz 0123456789 @[`{ +-./_''"
  "map canonChar ''abcdefghijklmnopqrstuvwxyz'' = ''ABCDEFGHIJKLMNOPQRSTUVWXYZ''"
  "map canonChar ''ABCXYZ 0123456789 @[`{ +-./_'' = ''ABCXYZ 0123456789 @[`{ +-./_''"
  by code_simp+

subsection \<open>Every credit is non-negative, every score lies between 0 and 1\<close>

lemma companyIndustryCredit_nonneg:
  "companyIndustryCredit c cv = Inr ic \<Longrightarrow> 0 \<le> creditValue ic"
  by (auto simp: companyIndustryCredit_def tenths_nonneg split: sum.splits)

lemma companySkillsCredit_nonneg: "0 \<le> creditValue (companySkillsCredit c ss)"
  by (simp add: companySkillsCredit_def companySkillsScore_def Let_def fmul_def rd_nonneg
      ratio_nonneg tenths_nonneg)

lemma companyLocationCredit_nonneg: "0 \<le> creditValue (companyLocationCredit c cv)"
  by (simp add: companyLocationCredit_def Let_def tenths_nonneg)

lemma companySizeCredit_nonneg: "0 \<le> creditValue (companySizeCredit c)"
  by (simp add: companySizeCredit_def tenths_nonneg)

lemma foldl_addCredit_nonneg:
  "0 \<le> s \<Longrightarrow> list_all (\<lambda>c. 0 \<le> creditValue c) cs \<Longrightarrow> 0 \<le> foldl addCredit s cs"
  by (induction cs arbitrary: s) (simp_all add: addCredit_nonneg)

lemma cappedSum_bounds:
  "list_all (\<lambda>c. 0 \<le> creditValue c) cs \<Longrightarrow> 0 \<le> cappedSum cs \<and> cappedSum cs \<le> 1"
  unfolding cappedSum_def by (rule fmin_one_bounds) (simp add: foldl_addCredit_nonneg)

text \<open>The score of a company is the capped sum of its four terms, in the order of the code.\<close>

lemma calculateCompanyMatchScore_terms:
  "calculateCompanyMatchScore c cv = Inr s \<longleftrightarrow>
     (\<exists>ic ss. companyIndustryCredit c cv = Inr ic \<and> cvSkillsLower cv = Inr ss
        \<and> s = cappedSum [ic, companySkillsCredit c ss, companyLocationCredit c cv,
                           companySizeCredit c])"
  by (auto simp: calculateCompanyMatchScore_def cappedSum_def Let_def split: sum.splits)

lemma calculateCompanyMatchScore_bounds:
  assumes "calculateCompanyMatchScore c cv = Inr s"
  shows "0 \<le> s \<and> s \<le> 1"
proof -
  from assms obtain ic ss where ic: "companyIndustryCredit c cv = Inr ic"
    and s: "s = cappedSum [ic, companySkillsCredit c ss, companyLocationCredit c cv,
                           companySizeCredit c]"
    unfolding calculateCompanyMatchScore_terms by blast
  show ?thesis unfolding s
    by (rule cappedSum_bounds)
      (simp add: companyIndustryCredit_nonneg [OF ic] companySkillsCredit_nonneg
        companyLocationCredit_nonneg companySizeCredit_nonneg)
qed

lemma sharedSkillsCredit_nonneg: "0 \<le> creditValue (sharedSkillsCredit ps ss)"
  by (simp add: sharedSkillsCredit_def sharedSkillsScore_def Let_def fmul_def rd_nonneg
      ratio_nonneg tenths_nonneg)

lemma profileIndustryCredit_nonneg:
  "profileIndustryCredit p cv = Inr ic \<Longrightarrow> 0 \<le> creditValue ic"
  by (auto simp: profileIndustryCredit_def Let_def tenths_nonneg split: sum.splits)

lemma seniorityCredit_nonneg: "0 \<le> creditValue (seniorityCredit p cv)"
  by (simp add: seniorityCredit_def Let_def tenths_nonneg)

lemma profileLocationCredit_nonneg: "0 \<le> creditValue (profileLocationCredit p cv)"
  by (simp add: profileLocationCredit_def Let_def tenths_nonneg)

text \<open>The score of a person is the capped sum of its four terms, in the order of the code.\<close>

lemma calculateProfileMatchScore_terms:
  "calculateProfileMatchScore p cv = Inr s \<longleftrightarrow>
     (\<exists>ss ps ic. cvSkillsLower cv = Inr ss \<and> profileSkillsLower p = Inr ps
        \<and> profileIndustryCredit p cv = Inr ic
        \<and> s = cappedSum [sharedSkillsCredit ps ss, ic, seniorityCredit p cv,
                           profileLocationCredit p cv])"
  by (auto simp: calculateProfileMatchScore_def cappedSum_def Let_def split: sum.splits)

lemma calculateProfileMatchScore_bounds:
  assumes "calculateProfileMatchScore p cv = Inr s"
  shows "0 \<le> s \<and> s \<le> 1"
proof -
  from assms obtain ss ps ic where ic: "profileIndustryCredit p cv = Inr ic"
    and s: "s = cappedSum [sharedSkillsCredit ps ss, ic, seniorityCredit p cv,
                           profileLocationCredit p cv]"
    unfolding calculateProfileMatchScore_terms by blast
  show ?thesis unfolding s
    by (rule cappedSum_bounds)
      (simp add: profileIndustryCredit_nonneg [OF ic] sharedSkillsCredit_nonneg
        seniorityCredit_nonneg profileLocationCredit_nonneg)
qed

lemma rankCompany_bounds:
  assumes "rankCompany cv c = Inr r"
  shows "0 \<le> match_score r \<and> match_score r \<le> 1"
proof -
  from assms obtain s where s: "calculateCompanyMatchScore c cv = Inr s"
    and r: "match_score r = parseFloat (toFixed2 s)"
    by (auto simp: rankCompany_def split: sum.splits)
  from calculateCompanyMatchScore_bounds [OF s] show ?thesis
    unfolding r by (simp add: roundedScore_bounds)
qed

lemma rankProfile_bounds:
  assumes "rankProfile cv p = Inr r"
  shows "0 \<le> match_score r \<and> match_score r \<le> 1"
proof -
  from assms obtain s where s: "calculateProfileMatchScore p cv = Inr s"
    and r: "match_score r = parseFloat (toFixed2 s)"
    by (auto simp: rankProfile_def Let_def split: sum.splits)
  from calculateProfileMatchScore_bounds [OF s] show ?thesis
    unfolding r by (simp add: roundedScore_bounds)
qed

subsection \<open>The ranking loop and the sort\<close>

lemma mapE_Inr_set: "mapE f xs = Inr ys \<Longrightarrow> y \<in> set ys \<Longrightarrow> \<exists>x\<in>set xs. f x = Inr y"
  by (induction xs arbitrary: ys) (auto split: sum.splits)

lemma set_sortByScoreDesc: "set (sortByScoreDesc xs) = set xs"
  by (simp add: sortByScoreDesc_def)

lemma sorted_sortByScoreDesc:
  "sorted_wrt (\<lambda>a b. match_score b \<le> match_score a) (sortByScoreDesc xs)"
proof -
  have "sorted (map (\<lambda>r. - match_score r) (sort_key (\<lambda>r. - match_score r) xs))"
    by (rule sorted_sort_key)
  then show ?thesis by (simp add: sortByScoreDesc_def sorted_map)
qed

lemma rankCompanies_Some:
  assumes "rankCompanies (Some cs) (Some cv) = Inr out"
  obtains ys where "mapE (rankCompany cv) cs = Inr ys" and "out = sortByScoreDesc ys"
  using assms by (auto simp: rankCompanies_def split: sum.splits)

lemma rankProfiles_Some:
  assumes "rankProfiles (Some ps) (Some cv) = Inr out"
  obtains ys where "mapE (rankProfile cv) ps = Inr ys" and "out = sortByScoreDesc ys"
  using assms by (auto simp: rankProfiles_def split: sum.splits)

lemma rankCompanies_absent:
  "companies = None \<or> cvData = None \<Longrightarrow> rankCompanies companies cvData = Inr []"
  by (auto simp: rankCompanies_def split: option.splits)

lemma rankProfiles_absent:
  "profiles = None \<or> cvData = None \<Longrightarrow> rankProfiles profiles cvData = Inr []"
  by (auto simp: rankProfiles_def split: option.splits)

subsection \<open>Two evaluated rankings\<close>

lemma companies_example:
  "map_sum (\<lambda>e. e) (map (\<lambda>r. (candidate r, match_score r)))
     (rankCompanies (Some [bareCompany, techCorp]) (Some pythonAwsProfile))
   = Inr [(techCorp, tenths 9), (bareCompany, 0)]"
  by code_simp

lemma profiles_example:
  "map_sum (\<lambda>e. e) (map (\<lambda>r. (candidate r, match_score r)))
     (rankProfiles (Some [barePerson, seniorEngineer]) (Some kubernetesProfile))
   = Inr [(seniorEngineer, tenths 6), (barePerson, tenths 1)]"
  by code_simp

subsection \<open>C1: every match score lies between 0 and 1\<close>

text \<open>
  Claim C1. For every profile and every list of candidate companies or persons, every
  \<open>match_score\<close> in the output of \<open>rankCompanies\<close> and of \<open>rankProfiles\<close> is at least 0 and
  at most 1. (A run that raises has no output.)
\<close>

theorem match_score_between_0_and_1:
  "(rankCompanies companies cvData = Inr rankedCompanies \<longrightarrow>
      (\<forall>r \<in> set rankedCompanies. 0 \<le> match_score r \<and> match_score r \<le> 1))
   \<and> (rankProfiles profiles cvData = Inr rankedProfiles \<longrightarrow>
      (\<forall>r \<in> set rankedProfiles. 0 \<le> match_score r \<and> match_score r \<le> 1))"
proof (rule conjI; rule impI; rule ballI)
  fix r
  assume out: "rankCompanies companies cvData = Inr rankedCompanies"
    and r: "r \<in> set rankedCompanies"
  show "0 \<le> match_score r \<and> match_score r \<le> 1"
  proof (cases "companies = None \<or> cvData = None")
    case True
    from rankCompanies_absent [OF this] out r show ?thesis by simp
  next
    case False
    then obtain cs cv where "companies = Some cs" and "cvData = Some cv" by auto
    with out obtain ys where ys: "mapE (rankCompany cv) cs = Inr ys"
      and "rankedCompanies = sortByScoreDesc ys"
      by (auto elim: rankCompanies_Some)
    with r have "r \<in> set ys" by (simp add: set_sortByScoreDesc)
    from mapE_Inr_set [OF ys this] obtain c where "rankCompany cv c = Inr r" by blast
    then show ?thesis by (rule rankCompany_bounds)
  qed
next
  fix r
  assume out: "rankProfiles profiles cvData = Inr rankedProfiles"
    and r: "r \<in> set rankedProfiles"
  show "0 \<le> match_score r \<and> match_score r \<le> 1"
  proof (cases "profiles = None \<or> cvData = None")
    case True
    from rankProfiles_absent [OF this] out r show ?thesis by simp
  next
    case False
    then obtain ps cv where "profiles = Some ps" and "cvData = Some cv" by auto
    with out obtain ys where ys: "mapE (rankProfile cv) ps = Inr ys"
      and "rankedProfiles = sortByScoreDesc ys"
      by (auto elim: rankProfiles_Some)
    with r have "r \<in> set ys" by (simp add: set_sortByScoreDesc)
    from mapE_Inr_set [OF ys this] obtain p where "rankProfile cv p = Inr r" by blast
    then show ?thesis by (rule rankProfile_bounds)
  qed
qed

theorem match_score_between_0_and_1_witness:
  "(\<exists>out. rankCompanies (Some [bareCompany, techCorp]) (Some pythonAwsProfile) = Inr out
      \<and> length out = 2 \<and> list_all (\<lambda>r. 0 \<le> match_score r \<and> match_score r \<le> 1) out)
   \<and> (\<exists>out. rankProfiles (Some [barePerson, seniorEngineer]) (Some kubernetesProfile) = Inr out
      \<and> length out = 2 \<and> list_all (\<lambda>r. 0 \<le> match_score r \<and> match_score r \<le> 1) out)"
proof -
  from companies_example obtain cs
    where cs: "rankCompanies (Some [bareCompany, techCorp]) (Some pythonAwsProfile) = Inr cs"
      and csl: "length cs = 2"
    by (cases "rankCompanies (Some [bareCompany, techCorp]) (Some pythonAwsProfile)") auto
  from profiles_example obtain ps
    where ps: "rankProfiles (Some [barePerson, seniorEngineer]) (Some kubernetesProfile) = Inr ps"
      and psl: "length ps = 2"
    by (cases "rankProfiles (Some [barePerson, seniorEngineer]) (Some kubernetesProfile)") auto
  from match_score_between_0_and_1 [of "Some [bareCompany, techCorp]" "Some pythonAwsProfile" cs
      "Some [barePerson, seniorEngineer]" ps] cs
  have c: "list_all (\<lambda>r. 0 \<le> match_score r \<and> match_score r \<le> 1) cs"
    by (simp add: list_all_iff)
  from match_score_between_0_and_1 [of "Some [bareCompany, techCorp]" "Some kubernetesProfile" cs
      "Some [barePerson, seniorEngineer]" ps] ps
  have p: "list_all (\<lambda>r. 0 \<le> match_score r \<and> match_score r \<le> 1) ps"
    by (simp add: list_all_iff)
  from cs csl c ps psl p show ?thesis by simp
qed

subsection \<open>C2: the output is sorted by descending match score\<close>

text \<open>
  Claim C2. For every profile and every candidate list, the output list of
  \<open>rankCompanies\<close> and the output list of \<open>rankProfiles\<close> are sorted in non-increasing
  order of \<open>match_score\<close>.
\<close>

theorem ranking_sorted_non_increasing:
  "(rankCompanies companies cvData = Inr rankedCompanies \<longrightarrow>
      sorted_wrt (\<lambda>a b. match_score b \<le> match_score a) rankedCompanies)
   \<and> (rankProfiles profiles cvData = Inr rankedProfiles \<longrightarrow>
      sorted_wrt (\<lambda>a b. match_score b \<le> match_score a) rankedProfiles)"
  by (auto simp: rankCompanies_def rankProfiles_def sorted_sortByScoreDesc
      split: option.splits sum.splits)

theorem ranking_sorted_non_increasing_witness:
  "(\<exists>out. rankCompanies (Some [bareCompany, techCorp]) (Some pythonAwsProfile) = Inr out
      \<and> map candidate out = [techCorp, bareCompany]
      \<and> sorted_wrt (\<lambda>a b. match_score b \<le> match_score a) out)
   \<and> (\<exists>out. rankProfiles (Some [barePerson, seniorEngineer]) (Some kubernetesProfile) = Inr out
      \<and> map candidate out = [seniorEngineer, barePerson]
      \<and> sorted_wrt (\<lambda>a b. match_score b \<le> match_score a) out)"
proof -
  from companies_example obtain cs
    where cs: "rankCompanies (Some [bareCompany, techCorp]) (Some pythonAwsProfile) = Inr cs"
      and csc: "map candidate cs = [techCorp, bareCompany]"
    by (cases "rankCompanies (Some [bareCompany, techCorp]) (Some pythonAwsProfile)") auto
  from profiles_example obtain ps
    where ps: "rankProfiles (Some [barePerson, seniorEngineer]) (Some kubernetesProfile) = Inr ps"
      and psc: "map candidate ps = [seniorEngineer, barePerson]"
    by (cases "rankProfiles (Some [barePerson, seniorEngineer]) (Some kubernetesProfile)") auto
  from ranking_sorted_non_increasing [of "Some [bareCompany, techCorp]" "Some pythonAwsProfile" cs
      "Some [barePerson, seniorEngineer]" ps] cs
  have c: "sorted_wrt (\<lambda>a b. match_score b \<le> match_score a) cs" by simp
  from ranking_sorted_non_increasing [of "Some [bareCompany, techCorp]" "Some kubernetesProfile" cs
      "Some [barePerson, seniorEngineer]" ps] ps
  have p: "sorted_wrt (\<lambda>a b. match_score b \<le> match_score a) ps" by simp
  from cs csc c ps psc p show ?thesis by simp
qed

subsection \<open>C8: absent or empty input gives the empty list\<close>

text \<open>
  Claim C8. If the candidate list is null or absent, the profile is null or absent, or
  the candidate list is empty, then \<open>rankCompanies\<close> and \<open>rankProfiles\<close> return the empty
  list and raise no error. This holds for whatever the other argument is, also for a
  profile whose skill entries would make the scoring raise.
\<close>

theorem ranking_absent_or_empty_input:
  "rankCompanies None cvData = Inr []
   \<and> rankCompanies companies None = Inr []
   \<and> rankCompanies (Some []) cvData = Inr []
   \<and> rankProfiles None cvData = Inr []
   \<and> rankProfiles profiles None = Inr []
   \<and> rankProfiles (Some []) cvData = Inr []"
  by (simp add: rankCompanies_def rankProfiles_def sortByScoreDesc_def split: option.splits)

subsection \<open>Evaluated constants\<close>





lemma full_skills_credit_company: "fmul 1 (tenths 3) = tenths 3"
  by code_simp



lemma tenths_values:
  "tenths 1 = 3602879701896397 / 36028797018963968"
  "tenths 2 = 3602879701896397 / 18014398509481984"
  "tenths 3 = 5404319552844595 / 18014398509481984"
  "tenths 4 = 3602879701896397 / 9007199254740992"
  "tenths 9 = 8106479329266893 / 9007199254740992"
  by code_simp+

subsection \<open>C4: the TechCorp scenario\<close>

text \<open>
  Claim C4. For the profile with skills Python and AWS and industry Technology, and the
  candidate company TechCorp (industry Technology, description "uses Python and AWS",
  location SF, size 51-200), the match score computed by \<open>rankCompanies\<close> is exactly 0.9:
  0.4 for the industry, 0.3 for the skills, 0.1 partial credit for a location that is
  present, 0.1 for the size bucket. (The sum of the four doubles is one unit in the last
  place below 0.9; \<open>toFixed(2)\<close> and \<open>parseFloat\<close> turn it into the double 0.9.)
\<close>

theorem techCorp_match_score:
  "map_sum (\<lambda>e. e) (map match_score) (rankCompanies (Some [techCorp]) (Some pythonAwsProfile))
     = Inr [tenths 9]
   \<and> companyIndustryCredit techCorp pythonAwsProfile = Inr (Some (tenths 4))
   \<and> cvSkillsLower pythonAwsProfile = Inr [''python'', ''aws'']
   \<and> companySkillsCredit techCorp [''python'', ''aws''] = Some (tenths 3)
   \<and> companyLocationCredit techCorp pythonAwsProfile = Some (tenths 1)
   \<and> companySizeCredit techCorp = Some (tenths 1)"
proof -
  have score: "map_sum (\<lambda>e. e) (map match_score)
      (rankCompanies (Some [techCorp]) (Some pythonAwsProfile)) = Inr [tenths 9]"
    by code_simp
  have industry: "companyIndustryCredit techCorp pythonAwsProfile = Inr (Some (tenths 4))"
    by code_simp
  have names: "cvSkillsLower pythonAwsProfile = Inr [''python'', ''aws'']"
    by code_simp
  have skills: "companySkillsCredit techCorp [''python'', ''aws''] = Some (tenths 3)"
    by code_simp
  have location: "companyLocationCredit techCorp pythonAwsProfile = Some (tenths 1)"
    by code_simp
  have size: "companySizeCredit techCorp = Some (tenths 1)"
    by code_simp
  from score industry names skills location size show ?thesis by simp
qed

lemma techCorp_unrounded_sum:
  "calculateCompanyMatchScore techCorp pythonAwsProfile = Inr (tenths 9 - 1 / 2 ^ 53)"
  by code_simp

subsection \<open>What a ranked entry holds\<close>

lemma rankCompany_Inr:
  assumes "rankCompany cv c = Inr r"
  shows "candidate r = c" and "getCompanyMatchingCriteria c cv = Inr (rationale r)"
  using assms by (auto simp: rankCompany_def split: sum.splits)

lemma rankProfile_Inr:
  assumes "rankProfile cv p = Inr r"
  shows "candidate r = p" and "getSharedSkills p cv = Inr (shared_skills (rationale r))"
  using assms by (auto simp: rankProfile_def Let_def split: sum.splits)

lemma rankCompany_score:
  assumes "rankCompany cv c = Inr r"
  shows "\<exists>s. calculateCompanyMatchScore c cv = Inr s \<and> match_score r = parseFloat (toFixed2 s)"
  using assms by (auto simp: rankCompany_def split: sum.splits)


lemma rankCompanies_member:
  assumes "rankCompanies (Some cs) (Some cv) = Inr out" and "r \<in> set out"
  shows "rankCompany cv (candidate r) = Inr r"
proof -
  from assms(1) obtain ys where ys: "mapE (rankCompany cv) cs = Inr ys"
    and "out = sortByScoreDesc ys"
    by (rule rankCompanies_Some)
  with assms(2) have "r \<in> set ys" by (simp add: set_sortByScoreDesc)
  from mapE_Inr_set [OF ys this] obtain c where c: "rankCompany cv c = Inr r" by blast
  with rankCompany_Inr(1) [OF c] show ?thesis by simp
qed

lemma rankProfiles_member:
  assumes "rankProfiles (Some ps) (Some cv) = Inr out" and "r \<in> set out"
  shows "rankProfile cv (candidate r) = Inr r"
proof -
  from assms(1) obtain ys where ys: "mapE (rankProfile cv) ps = Inr ys"
    and "out = sortByScoreDesc ys"
    by (rule rankProfiles_Some)
  with assms(2) have "r \<in> set ys" by (simp add: set_sortByScoreDesc)
  from mapE_Inr_set [OF ys this] obtain p where p: "rankProfile cv p = Inr r" by blast
  with rankProfile_Inr(1) [OF p] show ?thesis by simp
qed

subsection \<open>Arrays of strings never make the scoring raise\<close>




















subsection \<open>C5: the Kubernetes scenario and the seniority tiers\<close>









subsection \<open>Absent properties and the location flag\<close>

lemma str_includes_empty: "str_includes s []"
  by (cases s) simp_all

lemma absent_falsy: "absent v \<Longrightarrow> \<not> truthy v \<and> orEmptyString v = []"
  by (cases v) simp_all

lemma criteria_location_match:
  assumes "getCompanyMatchingCriteria c cv = Inr crit"
  shows "location_match crit = includesOpt (c_location c) (orEmptyString (cvLocationOf cv))"
  using assms by (auto simp: getCompanyMatchingCriteria_def Let_def split: sum.splits)

lemma partial_and_full_credit_differ: "tenths 1 \<noteq> tenths 2"
  by (simp add: tenths_values)

lemma partial_credit_not_zero: "tenths 1 \<noteq> 0"
  by (simp add: tenths_values)

subsection \<open>C10: the location flag when the profile has no location\<close>

text \<open>
  Claim C10, as the code has it. For every profile whose contact location is null or
  absent (which is what \<open>extractContactInfo\<close> always produces) and every candidate company
  whose location is a string, \<open>rankCompanies\<close> sets \<open>location_match\<close> to true, because
  every string contains the empty string. The location term of the score is the partial
  credit 0.1 when that string is not empty and nothing when it is the empty string; it
  is never the full 0.2. The \<open>match_score\<close> of the company is the capped sum of the
  industry term, the skills term, that location term and the size term, rounded to two
  decimals.
\<close>

theorem location_flag_without_profile_location:
  "(absent (cvLocationOf cvData)
      \<and> rankCompanies (Some companies) (Some cvData) = Inr rankedCompanies
      \<and> r \<in> set rankedCompanies \<and> c_location (candidate r) = Str l
    \<longrightarrow> location_match (rationale r)
        \<and> companyLocationCredit (candidate r) cvData = (if l = [] then None else Some (tenths 1))
        \<and> companyLocationCredit (candidate r) cvData \<noteq> Some (tenths 2)
        \<and> (\<exists>industryCredit cvSkills.
              companyIndustryCredit (candidate r) cvData = Inr industryCredit
              \<and> cvSkillsLower cvData = Inr cvSkills
              \<and> match_score r = parseFloat (toFixed2
                    (cappedSum [industryCredit, companySkillsCredit (candidate r) cvSkills,
                                if l = [] then None else Some (tenths 1),
                                companySizeCredit (candidate r)]))))
   \<and> contact_location (extractContactInfo text) = Null
   \<and> absent (cvLocationOf (extractedData text))"
proof (intro conjI impI)
  assume a: "absent (cvLocationOf cvData)
      \<and> rankCompanies (Some companies) (Some cvData) = Inr rankedCompanies
      \<and> r \<in> set rankedCompanies \<and> c_location (candidate r) = Str l"
  with rankCompanies_member [of companies cvData rankedCompanies r]
  have ranked: "rankCompany cvData (candidate r) = Inr r"
    by simp
  then have "getCompanyMatchingCriteria (candidate r) cvData = Inr (rationale r)"
    by (rule rankCompany_Inr(2))
  from criteria_location_match [OF this] a absent_falsy [of "cvLocationOf cvData"]
  show "location_match (rationale r)"
    by (simp add: str_includes_empty)
  from a absent_falsy [of "cvLocationOf cvData"]
  show credit: "companyLocationCredit (candidate r) cvData = (if l = [] then None else Some (tenths 1))"
    by (simp add: companyLocationCredit_def)
  then show "companyLocationCredit (candidate r) cvData \<noteq> Some (tenths 2)"
    by (simp add: partial_and_full_credit_differ)
  from rankCompany_score [OF ranked] obtain s
    where s: "calculateCompanyMatchScore (candidate r) cvData = Inr s"
      and m: "match_score r = parseFloat (toFixed2 s)"
    by blast
  from s obtain ic ss where "companyIndustryCredit (candidate r) cvData = Inr ic"
    and "cvSkillsLower cvData = Inr ss"
    and "s = cappedSum [ic, companySkillsCredit (candidate r) ss,
                        companyLocationCredit (candidate r) cvData,
                        companySizeCredit (candidate r)]"
    unfolding calculateCompanyMatchScore_terms by blast
  with m credit show "\<exists>industryCredit cvSkills.
      companyIndustryCredit (candidate r) cvData = Inr industryCredit
      \<and> cvSkillsLower cvData = Inr cvSkills
      \<and> match_score r = parseFloat (toFixed2
            (cappedSum [industryCredit, companySkillsCredit (candidate r) cvSkills,
                        if l = [] then None else Some (tenths 1),
                        companySizeCredit (candidate r)]))"
    by (intro exI [of _ ic] exI [of _ ss]) simp
next
  show "contact_location (extractContactInfo text) = Null"
    by (simp add: extractContactInfo_def Let_def)
  then show "absent (cvLocationOf (extractedData text))"
    by (simp add: cvLocationOf_def extractedData_def)
qed

theorem location_flag_without_profile_location_witness:
  "absent (cvLocationOf pythonAwsProfile)
   \<and> (\<exists>out r. rankCompanies (Some [bareCompany, techCorp]) (Some pythonAwsProfile) = Inr out
        \<and> r \<in> set out \<and> c_location (candidate r) = Str ''SF''
        \<and> location_match (rationale r)
        \<and> companyLocationCredit (candidate r) pythonAwsProfile = Some (tenths 1))"
proof -
  have ab: "absent (cvLocationOf pythonAwsProfile)"
    by (simp add: cvLocationOf_def pythonAwsProfile_def emptyProfile_def)
  from companies_example obtain r r'
    where out: "rankCompanies (Some [bareCompany, techCorp]) (Some pythonAwsProfile) = Inr [r, r']"
      and c: "candidate r = techCorp"
    by (cases "rankCompanies (Some [bareCompany, techCorp]) (Some pythonAwsProfile)") auto
  have r: "r \<in> set [r, r']" by simp
  have loc: "c_location (candidate r) = Str ''SF''"
    by (simp add: c techCorp_def)
  from location_flag_without_profile_location [of pythonAwsProfile "[bareCompany, techCorp]"
      "[r, r']" r "''SF''"] ab out loc
  have "location_match (rationale r)
      \<and> companyLocationCredit (candidate r) pythonAwsProfile = Some (tenths 1)"
    by simp
  with out r loc have "\<exists>out r. rankCompanies (Some [bareCompany, techCorp]) (Some pythonAwsProfile) = Inr out
        \<and> r \<in> set out \<and> c_location (candidate r) = Str ''SF''
        \<and> location_match (rationale r)
        \<and> companyLocationCredit (candidate r) pythonAwsProfile = Some (tenths 1)"
    by (intro exI [of _ "[r, r']"] exI [of _ r]) simp
  with ab show ?thesis by simp
qed

text \<open>
  As stated, with the partial credit for every string, the claim fails for the empty
  string: the flag is true and the score gets nothing for the location.
\<close>

theorem empty_location_gets_no_credit:
  "absent (cvLocationOf emptyProfile)
   \<and> c_location nowhereCompany = Str []
   \<and> map_sum (\<lambda>e. e) (map (\<lambda>r. location_match (rationale r)))
        (rankCompanies (Some [nowhereCompany]) (Some emptyProfile)) = Inr [True]
   \<and> creditValue (companyLocationCredit nowhereCompany emptyProfile) = 0
   \<and> calculateCompanyMatchScore nowhereCompany emptyProfile = Inr 0
   \<and> tenths 1 \<noteq> 0"
proof -
  have a: "absent (cvLocationOf emptyProfile)"
    by (simp add: cvLocationOf_def emptyProfile_def)
  have b: "c_location nowhereCompany = Str []"
    by (simp add: nowhereCompany_def bareCompany_def)
  have c: "map_sum (\<lambda>e. e) (map (\<lambda>r. location_match (rationale r)))
        (rankCompanies (Some [nowhereCompany]) (Some emptyProfile)) = Inr [True]"
    by code_simp
  have d: "creditValue (companyLocationCredit nowhereCompany emptyProfile) = 0"
    by code_simp
  have e: "calculateCompanyMatchScore nowhereCompany emptyProfile = Inr 0"
    by code_simp
  from a b c d e partial_credit_not_zero show ?thesis by simp
qed

subsection \<open>The skill names of an extracted profile, in lower case\<close>

lemma vocabulary_lower:
  "map toLowerCase (TECHNICAL_SKILLS @ SOFT_SKILLS) = TECHNICAL_SKILLS @ SOFT_SKILLS"
  by code_simp

lemma mapE_lowerE_Str:
  "mapE (\<lambda>s. lowerE (skill_name s)) (map (\<lambda>n. \<lparr>skill_name = Str n, category = c\<rparr>) ns)
   = Inr (map toLowerCase ns)"
  by (induction ns) simp_all

lemma mapE_append:
  "mapE f xs = Inr a \<Longrightarrow> mapE f ys = Inr b \<Longrightarrow> mapE f (xs @ ys) = Inr (a @ b)"
  by (induction xs arbitrary: a) (auto split: sum.splits)

lemma cvSkillsLower_extractedData:
  "cvSkillsLower (extractedData text) =
     Inr (map toLowerCase
       (filter (\<lambda>s. str_includes (toLowerCase text) (toLowerCase s)) (TECHNICAL_SKILLS @ SOFT_SKILLS)))"
  by (simp add: cvSkillsLower_def extractedData_def extractSkills_def Let_def
      mapE_append [OF mapE_lowerE_Str mapE_lowerE_Str])

subsection \<open>C7: candidates with absent properties\<close>
















text \<open>
  An entry that is not a string makes the scoring raise: a \<open>null\<close> among the industries
  of the profile (unless the industry of the company is absent, when the entry is never
  used), a \<open>null\<close> among the skills of the person.
\<close>

lemma entries_that_are_not_strings_raise:
  "calculateProfileMatchScore barePerson nullIndustryProfile = Inl TypeError"
  "calculateCompanyMatchScore techCorp nullIndustryProfile = Inl TypeError"
  "calculateCompanyMatchScore bareCompany nullIndustryProfile = Inr 0"
  "calculateProfileMatchScore nullSkillPerson emptyProfile = Inl TypeError"
  by code_simp+

text \<open>
  The name and the description of a company pass through a template that renders an
  absent property as the word "undefined" or "null", and that text is searched for the
  skills: a company whose name and description are null gets the full skills term from
  a profile with a skill called "Null".
\<close>

lemma null_name_matches_null_skill:
  "absent (c_name nullCompany) \<and> absent (c_description nullCompany)
   \<and> calculateCompanyMatchScore nullCompany nullSkillProfile = Inr (tenths 3)"
proof -
  have a: "absent (c_name nullCompany) \<and> absent (c_description nullCompany)"
    by (simp add: nullCompany_def bareCompany_def)
  have b: "calculateCompanyMatchScore nullCompany nullSkillProfile = Inr (tenths 3)"
    by code_simp
  from a b show ?thesis by simp
qed

subsection \<open>C9: duplicates in skills, industries and shared skills\<close>

lemma vocabulary_distinct: "distinct (TECHNICAL_SKILLS @ SOFT_SKILLS)"
  by code_simp

lemma commonIndustries_distinct: "distinct commonIndustries"
  by code_simp

lemma extractSkills_names:
  "map skill_name (extractSkills text) =
     map Str (filter (\<lambda>s. str_includes (toLowerCase text) (toLowerCase s))
       (TECHNICAL_SKILLS @ SOFT_SKILLS))"
  by (simp add: extractSkills_def Let_def comp_def)

lemma extractSkills_names_distinct: "distinct (map skill_name (extractSkills text))"
  unfolding extractSkills_names
  by (intro iffD2 [OF distinct_map] conjI distinct_filter vocabulary_distinct) (simp add: inj_on_def)

lemma extractSkills_distinct: "distinct (extractSkills text)"
  using extractSkills_names_distinct [of "text"] by (simp add: distinct_map)

lemma extractIndustries_distinct: "distinct (extractIndustries text)"
  by (simp add: extractIndustries_def Let_def commonIndustries_distinct)

lemma shared_skills_distinct:
  assumes "cvSkillsLower cv = Inr ss" and "distinct ss" and "getSharedSkills p cv = Inr sh"
  shows "distinct sh"
  using assms by (auto simp: getSharedSkills_def split: sum.splits)

lemma extracted_names_distinct:
  assumes "cvSkillsLower (extractedData text) = Inr ss"
  shows "distinct ss"
proof -
  have "distinct (map toLowerCase (TECHNICAL_SKILLS @ SOFT_SKILLS))"
    by (simp only: vocabulary_lower vocabulary_distinct)
  then have "distinct (map toLowerCase
      (filter (\<lambda>s. str_includes (toLowerCase text) (toLowerCase s)) (TECHNICAL_SKILLS @ SOFT_SKILLS)))"
    by (rule distinct_map_filter)
  with assms show ?thesis by (simp only: cvSkillsLower_extractedData sum.inject)
qed

text \<open>
  Claim C9, as the code has it. In every profile the parser extracts, the skills list
  and the industries list have no duplicate entries. In every match result of the
  ranking, the shared-skills list has no duplicate entries when the skill names of the
  profile are pairwise different after lower-casing, as they are in every profile the
  parser extracts.
\<close>

theorem no_duplicate_entries:
  "distinct (extractSkills text)
   \<and> distinct (map skill_name (extractSkills text))
   \<and> distinct (extractIndustries text)
   \<and> distinct (map Str (extractIndustries text))
   \<and> skills (extractedData text) = Some (extractSkills text)
   \<and> industries (extractedData text) = Some (map Str (extractIndustries text))
   \<and> (cvSkillsLower cvData = Inr cvSkills \<and> distinct cvSkills
        \<and> rankProfiles (Some profiles) (Some cvData) = Inr rankedProfiles
        \<and> r \<in> set rankedProfiles
      \<longrightarrow> distinct (shared_skills (rationale r)))
   \<and> (rankProfiles (Some profiles') (Some (extractedData text)) = Inr rankedProfiles'
        \<and> r' \<in> set rankedProfiles'
      \<longrightarrow> distinct (shared_skills (rationale r')))"
proof (intro conjI impI)
  show "distinct (extractSkills text)" by (rule extractSkills_distinct)
  show "distinct (map skill_name (extractSkills text))" by (rule extractSkills_names_distinct)
  show "distinct (extractIndustries text)" by (rule extractIndustries_distinct)
  then show "distinct (map Str (extractIndustries text))"
    by (simp add: distinct_map inj_on_def)
  show "skills (extractedData text) = Some (extractSkills text)"
    by (simp add: extractedData_def)
  show "industries (extractedData text) = Some (map Str (extractIndustries text))"
    by (simp add: extractedData_def)
next
  assume a: "cvSkillsLower cvData = Inr cvSkills \<and> distinct cvSkills
        \<and> rankProfiles (Some profiles) (Some cvData) = Inr rankedProfiles
        \<and> r \<in> set rankedProfiles"
  with rankProfiles_member [of profiles cvData rankedProfiles r]
  have "rankProfile cvData (candidate r) = Inr r" by simp
  then have "getSharedSkills (candidate r) cvData = Inr (shared_skills (rationale r))"
    by (rule rankProfile_Inr(2))
  with a show "distinct (shared_skills (rationale r))"
    by (blast intro: shared_skills_distinct)
next
  assume a: "rankProfiles (Some profiles') (Some (extractedData text)) = Inr rankedProfiles'
        \<and> r' \<in> set rankedProfiles'"
  with rankProfiles_member [of profiles' "extractedData text" rankedProfiles' r']
  have "rankProfile (extractedData text) (candidate r') = Inr r'" by simp
  then have sh: "getSharedSkills (candidate r') (extractedData text)
      = Inr (shared_skills (rationale r'))"
    by (rule rankProfile_Inr(2))
  obtain ss where ss: "cvSkillsLower (extractedData text) = Inr ss"
    by (simp add: cvSkillsLower_extractedData)
  from ss extracted_names_distinct [OF ss] sh
  show "distinct (shared_skills (rationale r'))"
    by (rule shared_skills_distinct)
qed

lemma extracted_python_example:
  "map_sum (\<lambda>e. e) (map (\<lambda>r. (candidate r, shared_skills (rationale r))))
     (rankProfiles (Some [pythonPerson]) (Some (extractedData ''python aws'')))
   = Inr [(pythonPerson, [''python''])]"
  by code_simp

theorem no_duplicate_entries_witness:
  "map skill_name (extractSkills ''python aws'') = [Str ''python'', Str ''aws'']
   \<and> distinct (extractSkills ''python aws'')
   \<and> (\<exists>out r. rankProfiles (Some [pythonPerson]) (Some (extractedData ''python aws'')) = Inr out
        \<and> r \<in> set out \<and> shared_skills (rationale r) = [''python'']
        \<and> distinct (shared_skills (rationale r)))"
proof -
  have names: "map skill_name (extractSkills ''python aws'') = [Str ''python'', Str ''aws'']"
    by code_simp
  from extracted_python_example obtain r
    where out: "rankProfiles (Some [pythonPerson]) (Some (extractedData ''python aws'')) = Inr [r]"
      and sh: "shared_skills (rationale r) = [''python'']"
    by (cases "rankProfiles (Some [pythonPerson]) (Some (extractedData ''python aws''))") auto
  have r: "r \<in> set [r]" by simp
  from no_duplicate_entries [of "''python aws''" emptyProfile "[]" "[]" "[]" r
      "[pythonPerson]" "[r]" r] out
  have d: "distinct (extractSkills ''python aws'')"
    and dr: "distinct (shared_skills (rationale r))"
    by simp_all
  from out r sh dr
  have "\<exists>out r. rankProfiles (Some [pythonPerson]) (Some (extractedData ''python aws'')) = Inr out
        \<and> r \<in> set out \<and> shared_skills (rationale r) = [''python'']
        \<and> distinct (shared_skills (rationale r))"
    by (intro exI [of _ "[r]"] exI [of _ r]) simp
  with names d show ?thesis by simp
qed

text \<open>
  As stated, for every match result, the claim fails for a profile that lists a skill
  in two spellings: the profile has no duplicate entry, the shared skills have one.
\<close>

theorem shared_skills_repeat_a_skill:
  "distinct (map skill_name (orEmptyList (skills twoSpellingsProfile)))
   \<and> map_sum (\<lambda>e. e) (map (\<lambda>r. shared_skills (rationale r)))
        (rankProfiles (Some [pythonPerson]) (Some twoSpellingsProfile))
      = Inr [[''python'', ''python'']]
   \<and> \<not> distinct [''python'', ''python'']"
proof -
  have a: "distinct (map skill_name (orEmptyList (skills twoSpellingsProfile)))"
    by code_simp
  have b: "map_sum (\<lambda>e. e) (map (\<lambda>r. shared_skills (rationale r)))
        (rankProfiles (Some [pythonPerson]) (Some twoSpellingsProfile))
      = Inr [[''python'', ''python'']]"
    by code_simp
  from a b show ?thesis by simp
qed

subsection \<open>C3: the confidence checklist\<close>

text \<open>
  The code and the specification agree on the formula and on four of the five signals:
  the scores are equal whenever the degree check of the code gives what the degree
  keywords of the specification give.
\<close>

lemma accuracy_agrees_on_degree_agreement:
  assumes "(testLiteralCI ''bachelor'' text \<or> testLiteralCI ''master'' text
      \<or> testLiteralCI ''phd'' text) = specDegreeSignal text"
  shows "calculateAccuracyScore text = specConfidenceScore text"
  using assms
  by (simp add: calculateAccuracyScore_def specConfidenceScore_def accuracyChecks_def
      specChecks_def Let_def)

lemma code_degree_check_implies_spec:
  "testLiteralCI ''bachelor'' text \<or> testLiteralCI ''master'' text \<or> testLiteralCI ''phd'' text
   \<Longrightarrow> specDegreeSignal text"
  by (auto simp: specDegreeSignal_def degreeKeywords_def)

text \<open>
  Claim C3 at the text "MBA". The claim counts five signals, the fifth being any degree
  keyword, mba and the abbreviated forms included, and gives min(1/5 + 0.2, 1.0) = 0.4.
  The code tests \<^verbatim>\<open>/bachelor|master|phd/i\<close> only: none of its five checks holds and the
  score is 0.2, although \<open>extractEducation\<close> finds the degree in the same text.
\<close>

theorem mba_is_not_counted:
  "calculateAccuracyScore ''MBA'' = tenths 2
   \<and> accuracyChecks ''MBA'' = [False, False, False, False, False]
   \<and> specDegreeSignal ''MBA''
   \<and> specConfidenceScore ''MBA'' = tenths 4
   \<and> tenths 2 \<noteq> tenths 4
   \<and> map degree (extractEducation ''MBA'') = [''MBA'']"
proof -
  have a: "calculateAccuracyScore ''MBA'' = tenths 2" by code_simp
  have b: "accuracyChecks ''MBA'' = [False, False, False, False, False]" by code_simp
  have c: "specDegreeSignal ''MBA''" by code_simp
  have d: "specConfidenceScore ''MBA'' = tenths 4" by code_simp
  have e: "tenths 2 \<noteq> tenths 4" by (simp add: tenths_values)
  have f: "map degree (extractEducation ''MBA'') = [''MBA'']" by code_simp
  from a b c d e f show ?thesis by simp
qed

text \<open>With all five signals of the code the score is 1, with none it is 0.2.\<close>

lemma accuracy_extremes:
  "calculateAccuracyScore ''a@b.co 555-123-4567 linkedin.com 2019 Bachelor'' = 1"
  "calculateAccuracyScore ''plain words'' = tenths 2"
  by code_simp+

subsection \<open>The global match finds the year tokens in reading order\<close>

lemma isDigit_word: "isDigit c \<Longrightarrow> isWordChar c"
  by (simp add: isDigit_def isWordChar_def)

lemma century_digits:
  "isDigit (CHR ''1'')" "isDigit (CHR ''9'')" "isDigit (CHR ''2'')" "isDigit (CHR ''0'')"
  by (simp_all add: isDigit_def code_def)

lemma yearAt_shape:
  assumes "yearAt s"
  obtains a b c d rest where "s = a # b # c # d # rest"
    and "isDigit a" and "isDigit b" and "isDigit c" and "isDigit d"
proof -
  from assms obtain a b c d rest where s: "s = a # b # c # d # rest"
    by (auto simp: yearAt_def split: list.splits)
  with assms have "isDigit a \<and> isDigit b \<and> isDigit c \<and> isDigit d"
    by (auto simp: yearAt_def century_digits)
  with s that show ?thesis by blast
qed

lemma matchYears_scanYears:
  "k = 0 \<or> (prevWord \<and> list_all isWordChar (take k s))
   \<Longrightarrow> matchYears k prevWord s = scanYears prevWord s"
proof (induction s arbitrary: k prevWord)
  case Nil
  show ?case by simp
next
  case (Cons c cs)
  show ?case
  proof (cases "0 < k")
    case True
    with Cons.prems have p: "prevWord" and w: "list_all isWordChar (take k (c # cs))" by auto
    from True obtain j where k: "k = Suc j" by (cases k) auto
    with w have "j = 0 \<or> (isWordChar c \<and> list_all isWordChar (take j cs))" by simp
    then have "matchYears j (isWordChar c) cs = scanYears (isWordChar c) cs"
      by (rule Cons.IH)
    with p k show ?thesis by simp
  next
    case False
    then have k: "k = 0" by simp
    show ?thesis
    proof (cases "\<not> prevWord \<and> yearAt (c # cs)")
      case True
      then obtain b c' d rest where cs: "cs = b # c' # d # rest"
        and dig: "isDigit c" "isDigit b" "isDigit c'" "isDigit d"
        by (auto elim!: yearAt_shape)
      then have "(3::nat) = 0 \<or> (isWordChar c \<and> list_all isWordChar (take 3 cs))"
        by (simp add: isDigit_word numeral_3_eq_3)
      then have "matchYears 3 (isWordChar c) cs = scanYears (isWordChar c) cs"
        by (rule Cons.IH)
      with True k show ?thesis by simp
    next
      case False
      have "(0::nat) = 0 \<or> (isWordChar c \<and> list_all isWordChar (take 0 cs))" by simp
      then have "matchYears 0 (isWordChar c) cs = scanYears (isWordChar c) cs"
        by (rule Cons.IH)
      with False k show ?thesis by auto
    qed
  qed
qed

lemma isYearTokenAt_here:
  "isYearTokenAt (pre @ c # cs) (length pre)
   = (\<not> (pre \<noteq> [] \<and> isWordChar (last pre)) \<and> yearAt (c # cs))"
proof (cases "pre = []")
  case True
  then show ?thesis by (simp add: isYearTokenAt_def)
next
  case False
  then have "(pre @ c # cs) ! (length pre - 1) = last pre"
    by (simp add: nth_append last_conv_nth)
  with False show ?thesis by (auto simp: isYearTokenAt_def)
qed

lemma scanYears_positions:
  "scanYears (pre \<noteq> [] \<and> isWordChar (last pre)) s =
     map (\<lambda>i. take 4 (drop i (pre @ s)))
       (filter (isYearTokenAt (pre @ s)) [length pre..<length (pre @ s)])"
proof (induction s arbitrary: pre)
  case Nil
  show ?case by simp
next
  case (Cons c cs)
  have ih: "scanYears (isWordChar c) cs =
     map (\<lambda>i. take 4 (drop i (pre @ c # cs)))
       (filter (isYearTokenAt (pre @ c # cs)) [Suc (length pre)..<length (pre @ c # cs)])"
    using Cons.IH [of "pre @ [c]"] by simp
  have upt: "[length pre..<length (pre @ c # cs)]
      = length pre # [Suc (length pre)..<length (pre @ c # cs)]"
    by (rule upt_conv_Cons) simp
  have here: "drop (length pre) (pre @ c # cs) = c # cs" by simp
  let ?P = "pre \<noteq> [] \<and> isWordChar (last pre)"
  have step: "scanYears ?P (c # cs)
      = (if \<not> ?P \<and> yearAt (c # cs) then [take 4 (c # cs)] else []) @ scanYears (isWordChar c) cs"
    by (rule scanYears.simps(2))
  show ?case
  proof (cases "isYearTokenAt (pre @ c # cs) (length pre)")
    case True
    then have c: "\<not> ?P \<and> yearAt (c # cs)"
      by (rule iffD1 [OF isYearTokenAt_here])
    have "scanYears ?P (c # cs) = take 4 (c # cs) # scanYears (isWordChar c) cs"
      unfolding step using c by (simp only: simp_thms if_True append_Cons append_Nil)
    with True show ?thesis
      by (simp only: upt ih filter.simps list.map here if_True simp_thms)
  next
    case False
    with isYearTokenAt_here [of pre c cs] have c: "\<not> (\<not> ?P \<and> yearAt (c # cs))"
      by blast
    have "scanYears ?P (c # cs) = scanYears (isWordChar c) cs"
      unfolding step using c by (simp only: simp_thms if_False append_Nil)
    with False show ?thesis
      by (simp only: upt ih filter.simps list.map if_False simp_thms)
  qed
qed

lemma yearTokens_lineYearTokens: "yearTokens line = lineYearTokens line"
proof -
  have "matchYears 0 False line = scanYears False line"
    by (rule matchYears_scanYears) simp
  moreover have "scanYears False line = lineYearTokens line"
    using scanYears_positions [of "[]" line]
    unfolding lineYearTokens_def yearTokenPositions_def by simp
  ultimately show ?thesis unfolding yearTokens_def by simp
qed

subsection \<open>A year token is a numeral of four digits\<close>

lemma lineYearToken_digits:
  assumes "t \<in> set (lineYearTokens line)"
  shows "length t = 4 \<and> list_all isDigit t"
proof -
  from assms obtain i where i: "i \<in> set (yearTokenPositions line)"
    and t: "t = take 4 (drop i line)"
    unfolding lineYearTokens_def by auto
  from i have "isYearTokenAt line i" unfolding yearTokenPositions_def by simp
  then have "yearAt (drop i line)" unfolding isYearTokenAt_def by simp
  then obtain a b c d rest where "drop i line = a # b # c # d # rest"
    and "isDigit a" "isDigit b" "isDigit c" "isDigit d"
    by (rule yearAt_shape)
  with t show ?thesis by simp
qed

lemma parseInt_digits:
  assumes "t \<noteq> []" and "list_all isDigit t"
  shows "parseInt t = Some (yearNumber t)"
proof -
  from assms(2) have "takeWhile isDigit t = t"
    by (simp add: takeWhile_eq_all_conv list_all_iff)
  with assms(1) show ?thesis
    by (cases t) (simp_all add: parseInt_def yearNumber_def)
qed

lemma parseInt_lineYearToken:
  assumes "t \<in> set (lineYearTokens line)"
  shows "parseInt t = Some (yearNumber t)"
proof -
  from lineYearToken_digits [OF assms] have "length t = 4" and d: "list_all isDigit t"
    by simp_all
  then have "t \<noteq> []" by auto
  from this d show ?thesis by (rule parseInt_digits)
qed

lemma calculateMonths_tokens:
  assumes "lineYearTokens line \<noteq> []"
  shows "calculateMonths (hd (lineYearTokens line)) (last (lineYearTokens line))
    = Some ((yearNumber (last (lineYearTokens line)) - yearNumber (hd (lineYearTokens line))) * 12)"
proof -
  from assms have "hd (lineYearTokens line) \<in> set (lineYearTokens line)"
    by (rule hd_in_set)
  then have h: "parseInt (hd (lineYearTokens line)) = Some (yearNumber (hd (lineYearTokens line)))"
    by (rule parseInt_lineYearToken)
  from assms have "last (lineYearTokens line) \<in> set (lineYearTokens line)"
    by (rule last_in_set)
  then have l: "parseInt (last (lineYearTokens line)) = Some (yearNumber (last (lineYearTokens line)))"
    by (rule parseInt_lineYearToken)
  show ?thesis unfolding calculateMonths_def h l by simp
qed

subsection \<open>The entries of extractExperience\<close>

lemma experienceEntries_start:
  "map start_date (experienceEntries ls)
   = map (\<lambda>l. hd (lineYearTokens l)) (filter (\<lambda>l. lineYearTokens l \<noteq> []) ls)"
  by (induction ls) (simp_all add: Let_def experienceEntry_def yearTokens_lineYearTokens)

lemma experienceEntries_end:
  "map end_date (experienceEntries ls)
   = map (\<lambda>l. last (lineYearTokens l)) (filter (\<lambda>l. lineYearTokens l \<noteq> []) ls)"
  by (induction ls) (simp_all add: Let_def experienceEntry_def yearTokens_lineYearTokens)

lemma experienceEntries_duration:
  "map duration_months (experienceEntries ls)
   = map (\<lambda>l. Some ((yearNumber (last (lineYearTokens l)) - yearNumber (hd (lineYearTokens l))) * 12))
       (filter (\<lambda>l. lineYearTokens l \<noteq> []) ls)"
  by (induction ls)
    (simp_all add: Let_def experienceEntry_def yearTokens_lineYearTokens calculateMonths_tokens)

subsection \<open>C6: start period, end period and duration of an experience entry\<close>

text \<open>
  Claim C6, as the code has it. For every line that \<open>extractExperience\<close> treats as an
  experience entry (a line with at least one year token \<^verbatim>\<open>19dd\<close> or \<^verbatim>\<open>20dd\<close>), the start
  period of the entry is the first year token of the line in reading order, the end
  period is the last one in reading order, and the duration in months is end year minus
  start year, times 12, for these two tokens (so it is negative when the line names the
  later year first). The result keeps at most the first 5 qualifying lines.
\<close>

theorem experience_periods_by_position:
  "map start_date (extractExperience text)
     = take 5 (map (\<lambda>l. hd (lineYearTokens l))
         (filter (\<lambda>l. lineYearTokens l \<noteq> []) (split_lines text)))
   \<and> map end_date (extractExperience text)
     = take 5 (map (\<lambda>l. last (lineYearTokens l))
         (filter (\<lambda>l. lineYearTokens l \<noteq> []) (split_lines text)))
   \<and> map duration_months (extractExperience text)
     = take 5 (map (\<lambda>l. Some ((yearNumber (last (lineYearTokens l))
                               - yearNumber (hd (lineYearTokens l))) * 12))
         (filter (\<lambda>l. lineYearTokens l \<noteq> []) (split_lines text)))
   \<and> length (extractExperience text) \<le> 5"
  by (simp add: extractExperience_def take_map [symmetric] experienceEntries_start
      experienceEntries_end experienceEntries_duration)

theorem experience_periods_by_position_witness:
  "lineYearTokens ''Engineer 2015 - 2018, promoted 2017'' = [''2015'', ''2018'', ''2017'']
   \<and> map start_date (extractExperience ''Engineer 2015 - 2018, promoted 2017'') = [''2015'']
   \<and> map end_date (extractExperience ''Engineer 2015 - 2018, promoted 2017'') = [''2017'']
   \<and> map duration_months (extractExperience ''Engineer 2015 - 2018, promoted 2017'') = [Some 24]"
proof -
  have ls: "split_lines ''Engineer 2015 - 2018, promoted 2017''
      = [''Engineer 2015 - 2018, promoted 2017'']"
    by code_simp
  have toks: "lineYearTokens ''Engineer 2015 - 2018, promoted 2017''
      = [''2015'', ''2018'', ''2017'']"
    by code_simp
  have num: "yearNumber ''2015'' = 2015" "yearNumber ''2017'' = 2017"
    by code_simp+
  from experience_periods_by_position [of "''Engineer 2015 - 2018, promoted 2017''"]
  show ?thesis unfolding ls by (simp add: toks num)
qed

text \<open>
  As stated, with the earliest and the latest year of the line, the claim fails for a
  line that names the later year first: the start period is 2020 although 2015 is the
  earlier year, the end period is 2015, and the duration is negative.
\<close>

theorem start_period_is_not_the_earliest_year:
  "lineYearTokens ''Dev 2020 - 2015'' = [''2020'', ''2015'']
   \<and> map start_date (extractExperience ''Dev 2020 - 2015'') = [''2020'']
   \<and> map end_date (extractExperience ''Dev 2020 - 2015'') = [''2015'']
   \<and> map duration_months (extractExperience ''Dev 2020 - 2015'') = [Some (- 60)]
   \<and> yearNumber ''2015'' < yearNumber ''2020''"
proof -
  have a: "lineYearTokens ''Dev 2020 - 2015'' = [''2020'', ''2015'']" by code_simp
  have b: "map start_date (extractExperience ''Dev 2020 - 2015'') = [''2020'']" by code_simp
  have c: "map end_date (extractExperience ''Dev 2020 - 2015'') = [''2015'']" by code_simp
  have d: "map duration_months (extractExperience ''Dev 2020 - 2015'') = [Some (- 60)]"
    by code_simp
  have e: "yearNumber ''2015'' < yearNumber ''2020''" by code_simp
  from a b c d e show ?thesis by simp
qed

end
